theory Spec2Isabelle
  imports Complex_Main "HOL-Library.Multiset" "HOL-Library.Sublist"
begin

section \<open>The JavaScript values the program computes with\<close>

text \<open>
  The repository is a Next.js tutorial: a list route \<open>GET\<close> that filters, sorts and
  paginates an in-memory array of property objects, and a React component that holds a
  filter state, updates it and encodes it as a query string (\<open>buildQuery\<close>).

  A JavaScript number is modelled by its mathematical value: \<open>NaN\<close>, the two infinities,
  or a finite rational. The rounding of IEEE doubles, overflow to infinity and the sign
  of zero are not modelled. A string is a list of 8-bit characters, read as the code units
  U+0000 to U+00FF.
\<close>

datatype number = NaN | NegInfinity | Finite rat | Infinity

datatype error = TypeError

text \<open>Subtraction of numbers: \<open>NaN\<close> is absorbing, and the difference of two equal
  infinities is \<open>NaN\<close>.\<close>

fun js_minus :: "number \<Rightarrow> number \<Rightarrow> number" where
  "js_minus NaN _ = NaN"
| "js_minus _ NaN = NaN"
| "js_minus (Finite a) (Finite b) = Finite (a - b)"
| "js_minus (Finite a) Infinity = NegInfinity"
| "js_minus (Finite a) NegInfinity = Infinity"
| "js_minus Infinity Infinity = NaN"
| "js_minus Infinity _ = Infinity"
| "js_minus NegInfinity NegInfinity = NaN"
| "js_minus NegInfinity _ = NegInfinity"

fun js_plus :: "number \<Rightarrow> number \<Rightarrow> number" where
  "js_plus NaN _ = NaN"
| "js_plus _ NaN = NaN"
| "js_plus (Finite a) (Finite b) = Finite (a + b)"
| "js_plus (Finite a) b = b"
| "js_plus Infinity NegInfinity = NaN"
| "js_plus NegInfinity Infinity = NaN"
| "js_plus a _ = a"

text \<open>Multiplication: zero times an infinity is \<open>NaN\<close>.\<close>

fun js_sign :: "number \<Rightarrow> int" where
  "js_sign (Finite a) = (if a < 0 then - 1 else if a = 0 then 0 else 1)"
| "js_sign Infinity = 1"
| "js_sign NegInfinity = - 1"
| "js_sign NaN = 0"

fun js_times :: "number \<Rightarrow> number \<Rightarrow> number" where
  "js_times NaN _ = NaN"
| "js_times _ NaN = NaN"
| "js_times (Finite a) (Finite b) = Finite (a * b)"
| "js_times a b =
     (if js_sign a * js_sign b = 0 then NaN
      else if js_sign a * js_sign b < 0 then NegInfinity else Infinity)"

text \<open>Division: a finite number over zero is an infinity, zero over zero and an infinity
  over an infinity are \<open>NaN\<close>, a finite number over an infinity is zero.\<close>

fun js_divide :: "number \<Rightarrow> number \<Rightarrow> number" where
  "js_divide NaN _ = NaN"
| "js_divide _ NaN = NaN"
| "js_divide (Finite a) (Finite b) =
     (if b = 0 then (if a = 0 then NaN else if a < 0 then NegInfinity else Infinity)
      else Finite (a / b))"
| "js_divide (Finite a) _ = Finite 0"
| "js_divide a (Finite b) =
     (if js_sign a * (if b < 0 then - 1 else 1) < 0 then NegInfinity else Infinity)"
| "js_divide _ _ = NaN"

fun Math_ceil :: "number \<Rightarrow> number" where
  "Math_ceil (Finite a) = Finite (of_int \<lceil>a\<rceil>)"
| "Math_ceil v = v"

text \<open>The comparisons \<open>>=\<close> and \<open><=\<close>: false as soon as one side is \<open>NaN\<close>.\<close>

fun js_le :: "number \<Rightarrow> number \<Rightarrow> bool" where
  "js_le NaN _ = False"
| "js_le _ NaN = False"
| "js_le NegInfinity _ = True"
| "js_le _ Infinity = True"
| "js_le (Finite a) (Finite b) = (a \<le> b)"
| "js_le _ _ = False"

definition js_ge :: "number \<Rightarrow> number \<Rightarrow> bool" where
  "js_ge a b = js_le b a"

text \<open>\<open>ToNumber\<close> of a field that may be \<open>undefined\<close>: \<open>undefined\<close> converts to \<open>NaN\<close>.\<close>

fun ToNumber :: "number option \<Rightarrow> number" where
  "ToNumber None = NaN"
| "ToNumber (Some v) = v"

subsection \<open>Strings\<close>

text \<open>White space as \<open>trim\<close>, \<open>parseInt\<close> and \<open>parseFloat\<close> skip it: tab, line feed,
  vertical tab, form feed, carriage return, space and no-break space.\<close>

definition isWhiteSpace :: "char \<Rightarrow> bool" where
  "isWhiteSpace c = (of_char c \<in> set [9, 10, 11, 12, 13, 32, 160 :: nat])"

definition trim :: "string \<Rightarrow> string" where
  "trim s = rev (dropWhile isWhiteSpace (rev (dropWhile isWhiteSpace s)))"

text \<open>\<open>toLowerCase\<close> on the code units below U+0100: A to Z, and the accented capitals
  U+00C0 to U+00DE but the multiplication sign U+00D7.\<close>

definition toLowerChar :: "char \<Rightarrow> char" where
  "toLowerChar c =
     (let n = of_char c :: nat
      in if (65 \<le> n \<and> n \<le> 90) \<or> (192 \<le> n \<and> n \<le> 222 \<and> n \<noteq> 215)
         then char_of (n + 32) else c)"

definition toLowerCase :: "string \<Rightarrow> string" where
  "toLowerCase s = map toLowerChar s"

text \<open>\<open>s.includes(t)\<close>: \<open>t\<close> occurs in \<open>s\<close> as a contiguous substring.\<close>

fun startsWith :: "string \<Rightarrow> string \<Rightarrow> bool" where
  "startsWith s [] = True"
| "startsWith [] (d # t) = False"
| "startsWith (c # s) (d # t) = (c = d \<and> startsWith s t)"

fun includes_str :: "string \<Rightarrow> string \<Rightarrow> bool" where
  "includes_str [] t = (t = [])"
| "includes_str (c # s) t = (startsWith (c # s) t \<or> includes_str s t)"

text \<open>\<open>xs.join(sep)\<close> and \<open>s.split(sep)\<close> for a one-character separator. Splitting the
  empty string gives one empty piece.\<close>

fun join :: "char \<Rightarrow> string list \<Rightarrow> string" where
  "join sep [] = []"
| "join sep [x] = x"
| "join sep (x # y # ys) = x @ sep # join sep (y # ys)"

fun split :: "char \<Rightarrow> string \<Rightarrow> string list" where
  "split sep [] = [[]]"
| "split sep (c # s) =
     (if c = sep then [] # split sep s
      else (case split sep s of [] \<Rightarrow> [[c]] | w # ws \<Rightarrow> (c # w) # ws))"

subsection \<open>Numbers and strings\<close>

text \<open>
  \<open>toString\<close> of an integer-valued number: decimal digits, a minus sign when negative.
  This is what JavaScript writes for a safe integer, one of magnitude at most
  \<open>2^53 - 1\<close>, which is also where an integer and the number that holds it are the same
  value. From \<open>10^21\<close> on JavaScript writes the exponent form (\<open>1e+21\<close>), which is not
  modelled: what is proved of the digits is proved for safe integers.
\<close>

definition isSafeInteger :: "int \<Rightarrow> bool" where
  "isSafeInteger i = (\<bar>i\<bar> \<le> 9007199254740991)"

fun digits :: "nat \<Rightarrow> string" where
  "digits n =
     (if n < 10 then [char_of (48 + n)] else digits (n div 10) @ [char_of (48 + n mod 10)])"

declare digits.simps [simp del]

definition toString :: "int \<Rightarrow> string" where
  "toString i = (if i < 0 then CHR ''-'' # digits (nat (- i)) else digits (nat i))"

text \<open>The value of a character as a digit: 0 to 9, then the letters in either case as 10
  to 35; 36 for a character that is no digit in any radix.\<close>

definition digitValue :: "char \<Rightarrow> nat" where
  "digitValue c =
     (let n = of_char c :: nat
      in if 48 \<le> n \<and> n \<le> 57 then n - 48
         else if 97 \<le> n \<and> n \<le> 122 then n - 87
         else if 65 \<le> n \<and> n \<le> 90 then n - 55
         else 36)"

text \<open>The ten decimal digit characters.\<close>

definition decimal_char :: "char \<Rightarrow> bool" where
  "decimal_char c = (48 \<le> (of_char c :: nat) \<and> (of_char c :: nat) \<le> 57)"

definition radixValue :: "nat \<Rightarrow> string \<Rightarrow> nat" where
  "radixValue R z = foldl (\<lambda>a c. a * R + digitValue c) 0 z"

text \<open>An optional sign in front of a numeral: the sign and the rest of the string.\<close>

fun stripSign :: "string \<Rightarrow> int \<times> string" where
  "stripSign [] = (1, [])"
| "stripSign (c # s) =
     (if c = CHR ''-'' then (- 1, s) else if c = CHR ''+'' then (1, s) else (1, c # s))"

text \<open>\<open>parseInt(s)\<close> with no radix: leading white space is skipped, then an optional sign,
  then an optional \<open>0x\<close> or \<open>0X\<close> that selects radix 16, then the longest run of digits
  of the radix. No digit at all gives \<open>NaN\<close>; what follows the digits is ignored.\<close>

fun stripPrefix :: "string \<Rightarrow> nat \<times> string" where
  "stripPrefix (c # d # s) =
     (if c = CHR ''0'' \<and> (d = CHR ''x'' \<or> d = CHR ''X'') then (16, s) else (10, c # d # s))"
| "stripPrefix s = (10, s)"

definition parseInt :: "string \<Rightarrow> number" where
  "parseInt s =
     (let (sign, s1) = stripSign (dropWhile isWhiteSpace s);
          (R, s2) = stripPrefix s1;
          z = takeWhile (\<lambda>c. digitValue c < R) s2
      in if z = [] then NaN else Finite (of_int (sign * int (radixValue R z))))"

text \<open>\<open>parseFloat(s)\<close>: leading white space is skipped, then the longest prefix that is a
  decimal literal is read: an optional sign, then \<open>Infinity\<close>, or digits with an optional
  fraction and an optional exponent (an exponent needs at least one digit). No such
  prefix gives \<open>NaN\<close>.\<close>

definition isDigit :: "char \<Rightarrow> bool" where
  "isDigit c = (digitValue c < 10)"

fun exponentPart :: "string \<Rightarrow> int" where
  "exponentPart [] = 0"
| "exponentPart (c # s) =
     (if c = CHR ''e'' \<or> c = CHR ''E''
      then (let (sign, s1) = stripSign s; z = takeWhile isDigit s1
            in if z = [] then 0 else sign * int (radixValue 10 z))
      else 0)"

fun fractionPart :: "string \<Rightarrow> string \<times> string" where
  "fractionPart [] = ([], [])"
| "fractionPart (c # s) =
     (if c = CHR ''.'' then (takeWhile isDigit s, dropWhile isDigit s) else ([], c # s))"

definition scale10 :: "rat \<Rightarrow> int \<Rightarrow> rat" where
  "scale10 x e = (if 0 \<le> e then x * 10 ^ nat e else x / 10 ^ nat (- e))"

definition parseFloat :: "string \<Rightarrow> number" where
  "parseFloat s =
     (let (sign, s1) = stripSign (dropWhile isWhiteSpace s)
      in if take 8 s1 = ''Infinity'' then (if sign < 0 then NegInfinity else Infinity)
         else
           (let z1 = takeWhile isDigit s1;
                (z2, s2) = fractionPart (dropWhile isDigit s1)
            in if z1 = [] \<and> z2 = [] then NaN
               else Finite (scale10 (of_int (sign * int (radixValue 10 (z1 @ z2))))
                                    (exponentPart s2 - int (length z2)))))"

text \<open>A string starts with a numeral when, after white space and an optional sign, it
  begins with a digit, a decimal point or the \<open>I\<close> of \<open>Infinity\<close>. A string that does
  not is non-numeric for both parsers.\<close>

definition starts_numeral :: "string \<Rightarrow> bool" where
  "starts_numeral s =
     (case snd (stripSign (dropWhile isWhiteSpace s)) of
        [] \<Rightarrow> False
      | c # r \<Rightarrow> isDigit c \<or> c = CHR ''.'' \<or> c = CHR ''I'')"

subsection \<open>Query strings\<close>

text \<open>
  A \<open>URLSearchParams\<close> object is the ordered list of its key/value pairs: \<open>append\<close> adds
  a pair at the end and \<open>get\<close> (here \<open>params_get\<close>) returns the value of the first pair with the key, or
  \<open>null\<close>. The percent-encoding of \<open>toString\<close> and its decoding by \<open>new URL\<close> are
  inverse to each other and are not modelled: the route reads the pairs the client wrote.
\<close>

type_synonym URLSearchParams = "(string \<times> string) list"

definition params_append :: "string \<Rightarrow> string \<Rightarrow> URLSearchParams \<Rightarrow> URLSearchParams" where
  "params_append k v params = params @ [(k, v)]"

definition params_get :: "URLSearchParams \<Rightarrow> string \<Rightarrow> string option" where
  "params_get params k = map_of params k"

text \<open>\<open>get(k) || d\<close>: the default replaces \<open>null\<close> and the empty string, both falsy.\<close>

definition get_or :: "URLSearchParams \<Rightarrow> string \<Rightarrow> string \<Rightarrow> string" where
  "get_or params k d =
     (case params_get params k of None \<Rightarrow> d | Some v \<Rightarrow> if v = [] then d else v)"

section \<open>The list route\<close>

text \<open>
  A property object as the route reads it. Every field the route inspects may be absent
  (\<open>undefined\<close>), which is \<open>None\<close>.
\<close>

record property =
  id :: string
  name :: "string option"
  location :: "string option"
  status :: "string option"
  type :: "string option"
  price :: "number option"
  rating :: "number option"
  last_updated :: "string option"

subsection \<open>Reading the query\<close>

text \<open>The constants at the head of \<open>GET\<close>, each as a function of \<open>searchParams\<close>.
  \<open>get(k)?.toLowerCase() || ''\<close> is the lowercased value, and the empty string when the
  key is absent; \<open>get(k)?.split(',') || []\<close> is the split value (an array is never
  falsy), and the empty array when the key is absent.\<close>

definition GET_search :: "URLSearchParams \<Rightarrow> string" where
  "GET_search searchParams =
     (case params_get searchParams ''search'' of None \<Rightarrow> [] | Some v \<Rightarrow> toLowerCase v)"

definition GET_sort_by :: "URLSearchParams \<Rightarrow> string" where
  "GET_sort_by searchParams = get_or searchParams ''sort_by'' ''last_updated''"

definition GET_order :: "URLSearchParams \<Rightarrow> string" where
  "GET_order searchParams = get_or searchParams ''order'' ''desc''"

definition GET_status :: "URLSearchParams \<Rightarrow> string list" where
  "GET_status searchParams =
     (case params_get searchParams ''status'' of None \<Rightarrow> [] | Some v \<Rightarrow> split (CHR '','') v)"

definition GET_type :: "URLSearchParams \<Rightarrow> string list" where
  "GET_type searchParams =
     (case params_get searchParams ''type'' of None \<Rightarrow> [] | Some v \<Rightarrow> split (CHR '','') v)"

definition GET_minPrice :: "URLSearchParams \<Rightarrow> number" where
  "GET_minPrice searchParams = parseFloat (get_or searchParams ''min_price'' ''0'')"

definition GET_maxPrice :: "URLSearchParams \<Rightarrow> number" where
  "GET_maxPrice searchParams = parseFloat (get_or searchParams ''max_price'' ''Infinity'')"

definition GET_page :: "URLSearchParams \<Rightarrow> number" where
  "GET_page searchParams = parseInt (get_or searchParams ''page'' ''1'')"

definition GET_limit :: "URLSearchParams \<Rightarrow> number" where
  "GET_limit searchParams = parseInt (get_or searchParams ''limit'' ''10'')"

subsection \<open>Filtering\<close>

text \<open>
  The callback of \<open>properties.filter\<close>. The clauses are evaluated left to right and
  \<open>&&\<close>, \<open>||\<close> cut short. Only the search clause can throw: \<open>p.name.toLowerCase()\<close> on
  an absent name, and \<open>p.location.toLowerCase()\<close> on an absent location once the name
  did not match. \<open>status.includes(undefined)\<close> is false, and a comparison with an
  absent price compares \<open>NaN\<close>.
\<close>

definition search_clause :: "string \<Rightarrow> property \<Rightarrow> error + bool" where
  "search_clause srch p =
     (if srch = [] then Inr True
      else (case name p of
              None \<Rightarrow> Inl TypeError
            | Some n \<Rightarrow>
                if includes_str (toLowerCase n) srch then Inr True
                else (case location p of
                        None \<Rightarrow> Inl TypeError
                      | Some l \<Rightarrow> Inr (includes_str (toLowerCase l) srch))))"

definition array_includes :: "string list \<Rightarrow> string option \<Rightarrow> bool" where
  "array_includes xs v = (case v of None \<Rightarrow> False | Some x \<Rightarrow> x \<in> set xs)"

definition filter_callback ::
  "string \<Rightarrow> string list \<Rightarrow> string list \<Rightarrow> number \<Rightarrow> number \<Rightarrow> property \<Rightarrow> error + bool" where
  "filter_callback srch stats typs minP maxP p =
     (case search_clause srch p of
        Inl e \<Rightarrow> Inl e
      | Inr b \<Rightarrow>
          Inr (b \<and>
               (stats = [] \<or> array_includes stats (status p)) \<and>
               (typs = [] \<or> array_includes typs (type p)) \<and>
               js_ge (ToNumber (price p)) minP \<and>
               js_le (ToNumber (price p)) maxP))"

text \<open>\<open>Array.prototype.filter\<close> with a callback that may throw: the elements are visited
  in order and the first exception ends the call.\<close>

fun Array_filter :: "('a \<Rightarrow> error + bool) \<Rightarrow> 'a list \<Rightarrow> error + 'a list" where
  "Array_filter f [] = Inr []"
| "Array_filter f (x # xs) =
     (case f x of
        Inl e \<Rightarrow> Inl e
      | Inr b \<Rightarrow>
          (case Array_filter f xs of
             Inl e \<Rightarrow> Inl e
           | Inr ys \<Rightarrow> Inr (if b then x # ys else ys)))"

subsection \<open>Sorting\<close>

text \<open>
  The comparator of \<open>filtered.sort\<close>. \<open>a[sort_by]\<close> is the price or the rating, and
  \<open>undefined - x\<close> is \<open>NaN\<close>. \<open>new Date(s).getTime()\<close> is a parameter, \<open>Date_parse\<close>:
  the time value of a date string, \<open>NaN\<close> when the string is no date; the time value of
  \<open>new Date(undefined)\<close> is \<open>NaN\<close>.
\<close>

definition sort_field :: "string \<Rightarrow> property \<Rightarrow> number" where
  "sort_field sort_by p = ToNumber (if sort_by = ''price'' then price p else rating p)"

definition getTime :: "(string \<Rightarrow> number) \<Rightarrow> string option \<Rightarrow> number" where
  "getTime Date_parse v = (case v of None \<Rightarrow> NaN | Some s \<Rightarrow> Date_parse s)"

definition compareFn ::
  "(string \<Rightarrow> number) \<Rightarrow> string \<Rightarrow> string \<Rightarrow> property \<Rightarrow> property \<Rightarrow> number" where
  "compareFn Date_parse sort_by order a b =
     (if sort_by = ''price'' \<or> sort_by = ''rating''
      then (if order = ''asc''
            then js_minus (sort_field sort_by a) (sort_field sort_by b)
            else js_minus (sort_field sort_by b) (sort_field sort_by a))
      else if sort_by = ''last_updated''
      then (if order = ''asc''
            then js_minus (getTime Date_parse (last_updated a)) (getTime Date_parse (last_updated b))
            else js_minus (getTime Date_parse (last_updated b)) (getTime Date_parse (last_updated a)))
      else Finite 0)"

text \<open>
  \<open>Array.prototype.sort\<close> with a comparator: \<open>a\<close> goes after \<open>b\<close> when the comparator
  is positive on \<open>(a, b)\<close>. The language fixes the result for a consistent comparator
  only: the sorted permutation in which elements that compare equal keep their order.
  \<open>Array_sort\<close> computes that permutation, by insertion from the right.
\<close>

fun is_positive :: "number \<Rightarrow> bool" where
  "is_positive (Finite a) = (0 < a)"
| "is_positive Infinity = True"
| "is_positive _ = False"

fun insert_by :: "('a \<Rightarrow> 'a \<Rightarrow> number) \<Rightarrow> 'a \<Rightarrow> 'a list \<Rightarrow> 'a list" where
  "insert_by cmp x [] = [x]"
| "insert_by cmp x (y # ys) =
     (if is_positive (cmp x y) then y # insert_by cmp x ys else x # y # ys)"

definition Array_sort :: "('a \<Rightarrow> 'a \<Rightarrow> number) \<Rightarrow> 'a list \<Rightarrow> 'a list" where
  "Array_sort cmp xs = foldr (insert_by cmp) xs []"

text \<open>
  A consistent comparator for the elements of an array, as the language defines it: on
  every pair the result is a number and not \<open>NaN\<close>, every element compares equal to
  itself, comparing equal is symmetric and transitive, and so are comparing less and
  comparing greater. The comparator of the route is a pure function of its arguments, so
  it returns the same value each time it is called on a pair.
\<close>

fun is_negative :: "number \<Rightarrow> bool" where
  "is_negative (Finite a) = (a < 0)"
| "is_negative NegInfinity = True"
| "is_negative _ = False"

definition consistent :: "('a \<Rightarrow> 'a \<Rightarrow> number) \<Rightarrow> 'a list \<Rightarrow> bool" where
  "consistent cmp xs =
     (\<forall>a \<in> set xs. \<forall>b \<in> set xs. \<forall>c \<in> set xs.
        cmp a b \<noteq> NaN \<and>
        cmp a a = Finite 0 \<and>
        (cmp a b = Finite 0 \<longrightarrow> cmp b a = Finite 0) \<and>
        (cmp a b = Finite 0 \<and> cmp b c = Finite 0 \<longrightarrow> cmp a c = Finite 0) \<and>
        (is_negative (cmp a b) \<and> is_negative (cmp b c) \<longrightarrow> is_negative (cmp a c)) \<and>
        (is_positive (cmp a b) \<and> is_positive (cmp b c) \<longrightarrow> is_positive (cmp a c)))"

text \<open>
  What a call \<open>xs.sort(cmp)\<close> may leave in the array. For a consistent comparator it is
  the order \<open>Array_sort\<close> computes. For a comparator that is not consistent the language
  leaves the order to the implementation: every arrangement of the elements is a possible
  outcome, and which one comes out depends on the engine.
\<close>

definition sort_outcome :: "('a \<Rightarrow> 'a \<Rightarrow> number) \<Rightarrow> 'a list \<Rightarrow> 'a list \<Rightarrow> bool" where
  "sort_outcome cmp xs ys =
     (if consistent cmp xs then ys = Array_sort cmp xs else mset ys = mset xs)"

subsection \<open>Pagination\<close>

text \<open>
  \<open>xs.slice(start, stop)\<close>: each bound goes through \<open>ToIntegerOrInfinity\<close> (\<open>NaN\<close> is 0,
  a fraction is truncated towards zero), a negative bound counts from the end of the
  array, and both are clamped to the array.
\<close>

definition js_truncate :: "rat \<Rightarrow> int" where
  "js_truncate a = (if 0 \<le> a then \<lfloor>a\<rfloor> else \<lceil>a\<rceil>)"

fun relative_index :: "int \<Rightarrow> number \<Rightarrow> int" where
  "relative_index len NaN = 0"
| "relative_index len NegInfinity = 0"
| "relative_index len Infinity = len"
| "relative_index len (Finite a) =
     (if js_truncate a < 0 then max (len + js_truncate a) 0 else min (js_truncate a) len)"

definition slice :: "'a list \<Rightarrow> number \<Rightarrow> number \<Rightarrow> 'a list" where
  "slice xs start stop =
     (let len = int (length xs);
          k = relative_index len start;
          final = relative_index len stop
      in take (nat (final - k)) (drop (nat k) xs))"

definition paginate :: "'a list \<Rightarrow> number \<Rightarrow> number \<Rightarrow> 'a list" where
  "paginate filtered pg limit =
     (let start = js_times (js_minus pg (Finite 1)) limit
      in slice filtered start (js_plus start limit))"

definition total_pages :: "'a list \<Rightarrow> number \<Rightarrow> number" where
  "total_pages filtered limit =
     Math_ceil (js_divide (Finite (of_nat (length filtered))) limit)"

subsection \<open>The route\<close>

record response =
  data :: "property list"
  total :: nat
  page :: number
  totalPages :: number

definition GET_filtered :: "property list \<Rightarrow> URLSearchParams \<Rightarrow> error + property list" where
  "GET_filtered properties searchParams =
     Array_filter
       (filter_callback (GET_search searchParams) (GET_status searchParams)
          (GET_type searchParams) (GET_minPrice searchParams) (GET_maxPrice searchParams))
       properties"

text \<open>The route takes the sort of the engine it runs on as a parameter, \<open>engine_sort\<close>:
  a function whose result on every comparator and array is a \<open>sort_outcome\<close>.
  \<open>Array_sort\<close> is one such function.\<close>

definition GET ::
  "((property \<Rightarrow> property \<Rightarrow> number) \<Rightarrow> property list \<Rightarrow> property list) \<Rightarrow>
   (string \<Rightarrow> number) \<Rightarrow> property list \<Rightarrow> URLSearchParams \<Rightarrow> error + response" where
  "GET engine_sort Date_parse properties searchParams =
     (case GET_filtered properties searchParams of
        Inl e \<Rightarrow> Inl e
      | Inr filtered0 \<Rightarrow>
          (let filtered =
                 engine_sort
                   (compareFn Date_parse (GET_sort_by searchParams) (GET_order searchParams))
                   filtered0
           in Inr \<lparr> data = paginate filtered (GET_page searchParams) (GET_limit searchParams),
                    total = length filtered,
                    page = GET_page searchParams,
                    totalPages = total_pages filtered (GET_limit searchParams) \<rparr>))"

subsection \<open>Notions used to state the properties of the route\<close>

text \<open>The key the comparator orders by: the time value of \<open>last_updated\<close>, or the price
  or rating as a number.\<close>

definition sorting_key :: "(string \<Rightarrow> number) \<Rightarrow> string \<Rightarrow> property \<Rightarrow> number" where
  "sorting_key Date_parse sort_by p =
     (if sort_by = ''last_updated'' then getTime Date_parse (last_updated p)
      else sort_field sort_by p)"

text \<open>A number that is neither \<open>NaN\<close> nor an infinity.\<close>

fun isFinite :: "number \<Rightarrow> bool" where
  "isFinite (Finite a) = True"
| "isFinite _ = False"

text \<open>The upper price bound as a number: unbounded when it is unset.\<close>

fun upper_bound :: "rat option \<Rightarrow> number" where
  "upper_bound None = Infinity"
| "upper_bound (Some h) = Finite h"

text \<open>
  The filter predicate in the words of the specification, for a search string \<open>s\<close> as the
  user typed it, the accepted statuses and types, the minimum price and the optional
  maximum price. It is the conjunction of four clauses. The search clause passes when the
  search string is empty, or its lower case is a substring (\<open>sublist\<close>) of the lower case
  of the name or of the location. The status clause passes when the status set is empty
  or holds the status of the record, and the type clause likewise. The price clause
  passes when the price lies between the minimum and the maximum, the maximum being
  unbounded when unset. An absent field matches no clause that inspects it.
\<close>

definition search_passes :: "string \<Rightarrow> property \<Rightarrow> bool" where
  "search_passes s p =
     (s = [] \<or>
      (case name p of None \<Rightarrow> False | Some n \<Rightarrow> sublist (toLowerCase s) (toLowerCase n)) \<or>
      (case location p of None \<Rightarrow> False | Some l \<Rightarrow> sublist (toLowerCase s) (toLowerCase l)))"

definition member_passes :: "string list \<Rightarrow> string option \<Rightarrow> bool" where
  "member_passes accepted v =
     (accepted = [] \<or> (case v of None \<Rightarrow> False | Some x \<Rightarrow> x \<in> set accepted))"

fun price_passes :: "rat \<Rightarrow> rat option \<Rightarrow> number option \<Rightarrow> bool" where
  "price_passes lo hi (Some (Finite pr)) = (lo \<le> pr \<and> (case hi of None \<Rightarrow> True | Some h \<Rightarrow> pr \<le> h))"
| "price_passes lo hi (Some Infinity) = (hi = None)"
| "price_passes lo hi _ = False"

definition satisfies_clauses ::
  "string \<Rightarrow> string list \<Rightarrow> string list \<Rightarrow> rat \<Rightarrow> rat option \<Rightarrow> property \<Rightarrow> bool" where
  "satisfies_clauses s stats typs lo hi p =
     (search_passes s p \<and> member_passes stats (status p) \<and> member_passes typs (type p) \<and>
      price_passes lo hi (price p))"

text \<open>When the search clause throws: the search is not empty and the name is absent, or
  the name does not match and the location is absent.\<close>

definition search_clause_throws :: "string \<Rightarrow> property \<Rightarrow> bool" where
  "search_clause_throws srch p =
     (srch \<noteq> [] \<and>
      (case name p of
         None \<Rightarrow> True
       | Some n \<Rightarrow> \<not> includes_str (toLowerCase n) srch \<and> location p = None))"

text \<open>Three property objects for the examples.\<close>

definition sample_villa :: property where
  "sample_villa =
     \<lparr> id = ''p1'', name = Some ''Luxury Sunset Villa'', location = Some ''Siem Reap'',
       status = Some ''active'', type = Some ''villa'', price = Some (Finite 100),
       rating = Some (Finite 4), last_updated = Some ''2024-01-15'' \<rparr>"

definition sample_flat :: property where
  "sample_flat =
     \<lparr> id = ''p2'', name = Some ''City Flat'', location = Some ''Phnom Penh'',
       status = Some ''draft'', type = Some ''apartment'', price = Some (Finite 50),
       rating = Some (Finite 3), last_updated = Some ''2024-02-01'' \<rparr>"

definition sample_house :: property where
  "sample_house =
     \<lparr> id = ''p3'', name = Some ''River House'', location = Some ''Kampot'',
       status = Some ''active'', type = Some ''house'', price = Some (Finite 100),
       rating = Some (Finite 5), last_updated = Some ''2024-03-20'' \<rparr>"

text \<open>Seven records that differ in their rating, the fifth without one.\<close>

definition rated :: "string \<Rightarrow> number option \<Rightarrow> property" where
  "rated i r = sample_villa\<lparr>id := i, rating := r\<rparr>"

definition rated_input :: "property list" where
  "rated_input =
     [rated ''r0'' (Some (Finite 2)), rated ''r1'' (Some (Finite 1)),
      rated ''r2'' (Some (Finite 1)), rated ''r3'' (Some (Finite 1)), rated ''r4'' None,
      rated ''r5'' (Some (Finite 1)), rated ''r6'' (Some (Finite 1))]"

definition rated_outcome :: "property list" where
  "rated_outcome =
     [rated ''r1'' (Some (Finite 1)), rated ''r2'' (Some (Finite 1)),
      rated ''r3'' (Some (Finite 1)), rated ''r6'' (Some (Finite 1)),
      rated ''r0'' (Some (Finite 2)), rated ''r4'' None, rated ''r5'' (Some (Finite 1))]"

section \<open>The client component\<close>

text \<open>
  The filter state of \<open>PropertyFilterSystem\<close>. Its numbers are integers: the prices come
  from \<open>parseInt\<close> of a range input, the page from 1 by steps of one. The state has no
  page size: \<open>buildQuery\<close> always writes the limit 10.
\<close>

record FilterState =
  search :: string
  sortBy :: string
  sortDirection :: string
  status :: "string list"
  type :: "string list"
  minPrice :: int
  maxPrice :: int
  page :: int

definition initialFilters :: FilterState where
  "initialFilters =
     \<lparr> search = [], sortBy = ''last_updated'', sortDirection = ''desc'', status = [],
       type = [], minPrice = 0, maxPrice = 1000, page = 1 \<rparr>"

text \<open>A filter state in which no field has its default value.\<close>

definition sample_filters :: FilterState where
  "sample_filters =
     \<lparr> search = '' Villa '', sortBy = ''price'', sortDirection = ''asc'',
       status = [''active'', ''draft''], type = [''villa''], minPrice = 60, maxPrice = 500,
       page = 3 \<rparr>"

subsection \<open>The query builder\<close>

definition append_if :: "bool \<Rightarrow> string \<Rightarrow> string \<Rightarrow> URLSearchParams \<Rightarrow> URLSearchParams" where
  "append_if c k v params = (if c then params_append k v params else params)"

definition buildQuery :: "string \<Rightarrow> FilterState \<Rightarrow> URLSearchParams" where
  "buildQuery locale filterState =
     (let params = [];
          params = params_append ''locale'' locale params;
          params = append_if (trim (search filterState) \<noteq> [])
                     ''search'' (trim (search filterState)) params;
          params = params_append ''sortBy'' (sortBy filterState) params;
          params = params_append ''sortDirection'' (sortDirection filterState) params;
          params = append_if (0 < length (status filterState))
                     ''status'' (join (CHR '','') (status filterState)) params;
          params = append_if (0 < length (type filterState))
                     ''type'' (join (CHR '','') (type filterState)) params;
          params = append_if (0 < minPrice filterState)
                     ''minPrice'' (toString (minPrice filterState)) params;
          params = append_if (maxPrice filterState < 1000)
                     ''maxPrice'' (toString (maxPrice filterState)) params;
          params = params_append ''page'' (toString (page filterState)) params;
          params = params_append ''limit'' ''10'' params
      in params)"

subsection \<open>The update helpers\<close>

text \<open>
  \<open>updateFilter(key, value)\<close> builds \<open>{...prev, [key]: value, page: 1}\<close>. A key and a
  value of the type of its field are one \<open>field_update\<close>. The property \<open>page: 1\<close> is
  written after \<open>[key]: value\<close>, so it also wins when the key is \<open>page\<close>.
\<close>

datatype field_update =
    Set_search string
  | Set_sortBy string
  | Set_sortDirection string
  | Set_status "string list"
  | Set_type "string list"
  | Set_minPrice int
  | Set_maxPrice int
  | Set_page int

fun set_field :: "field_update \<Rightarrow> FilterState \<Rightarrow> FilterState" where
  "set_field (Set_search v) prev = prev\<lparr>search := v\<rparr>"
| "set_field (Set_sortBy v) prev = prev\<lparr>sortBy := v\<rparr>"
| "set_field (Set_sortDirection v) prev = prev\<lparr>sortDirection := v\<rparr>"
| "set_field (Set_status v) prev = prev\<lparr>status := v\<rparr>"
| "set_field (Set_type v) prev = prev\<lparr>type := v\<rparr>"
| "set_field (Set_minPrice v) prev = prev\<lparr>minPrice := v\<rparr>"
| "set_field (Set_maxPrice v) prev = prev\<lparr>maxPrice := v\<rparr>"
| "set_field (Set_page v) prev = prev\<lparr>page := v\<rparr>"

definition updateFilter :: "field_update \<Rightarrow> FilterState \<Rightarrow> FilterState" where
  "updateFilter kv prev = (set_field kv prev)\<lparr>page := 1\<rparr>"

text \<open>\<open>updateArrayFilter(key, value)\<close>, for the two array fields: the value is removed
  when the array includes it, and added at the end otherwise.\<close>

datatype array_key = Key_status | Key_type

fun array_field :: "array_key \<Rightarrow> FilterState \<Rightarrow> string list" where
  "array_field Key_status prev = status prev"
| "array_field Key_type prev = type prev"

definition toggled :: "string list \<Rightarrow> string \<Rightarrow> string list" where
  "toggled xs v = (if v \<in> set xs then filter (\<lambda>item. item \<noteq> v) xs else xs @ [v])"

fun updateArrayFilter :: "array_key \<Rightarrow> string \<Rightarrow> FilterState \<Rightarrow> FilterState" where
  "updateArrayFilter Key_status v prev = prev\<lparr>status := toggled (status prev) v, page := 1\<rparr>"
| "updateArrayFilter Key_type v prev = prev\<lparr>type := toggled (type prev) v, page := 1\<rparr>"

definition toggleSort :: "FilterState \<Rightarrow> FilterState" where
  "toggleSort prev =
     prev\<lparr>sortDirection := (if sortDirection prev = ''asc'' then ''desc'' else ''asc'')\<rparr>"

definition changePage :: "int \<Rightarrow> FilterState \<Rightarrow> FilterState" where
  "changePage newPage prev = prev\<lparr>page := newPage\<rparr>"

section \<open>Properties of the filterer\<close>

lemma startsWith_iff: "startsWith s t \<longleftrightarrow> (\<exists>ss. s = t @ ss)"
  by (induction s t rule: startsWith.induct) auto

text \<open>The recursive substring test is the substring relation.\<close>

lemma includes_str_iff: "includes_str s t \<longleftrightarrow> (\<exists>ps ss. s = ps @ t @ ss)"
proof (induction s)
  case Nil
  show ?case by simp
next
  case (Cons c s)
  show ?case
  proof
    assume "includes_str (c # s) t"
    then consider "startsWith (c # s) t" | "includes_str s t" by auto
    then show "\<exists>ps ss. c # s = ps @ t @ ss"
    proof cases
      case 1
      then obtain ss where "c # s = t @ ss" by (auto simp: startsWith_iff)
      then have "c # s = [] @ t @ ss" by simp
      then show ?thesis by blast
    next
      case 2
      with Cons.IH obtain ps ss where "s = ps @ t @ ss" by blast
      then have "c # s = (c # ps) @ t @ ss" by simp
      then show ?thesis by blast
    qed
  next
    assume "\<exists>ps ss. c # s = ps @ t @ ss"
    then obtain ps ss where e: "c # s = ps @ t @ ss" by blast
    show "includes_str (c # s) t"
    proof (cases ps)
      case Nil
      with e have "startsWith (c # s) t" by (auto simp: startsWith_iff)
      then show ?thesis by simp
    next
      case (Cons d ps')
      with e have "s = ps' @ t @ ss" by simp
      with Cons.IH have "includes_str s t" by blast
      then show ?thesis by simp
    qed
  qed
qed

text \<open>The substring test of the code is the substring relation of the library.\<close>

lemma includes_str_sublist: "includes_str s t \<longleftrightarrow> sublist t s"
  by (simp add: includes_str_iff sublist_def)

text \<open>A callback that never throws makes \<open>Array_filter\<close> the list filter, which keeps
  the kept elements in their order.\<close>

lemma Array_filter_total:
  assumes "\<forall>x \<in> set xs. f x = Inr (P x)"
  shows "Array_filter f xs = Inr (filter P xs)"
  using assms by (induction xs) simp_all

lemma toLowerCase_empty: "toLowerCase s = [] \<longleftrightarrow> s = []"
  by (simp add: toLowerCase_def)

lemma js_le_NaN_right: "\<not> js_le a NaN"
  by (cases a) simp_all

text \<open>Where the search clause does not throw, each clause of the callback is the clause
  of the specification.\<close>

lemma search_clause_passes:
  assumes "\<not> search_clause_throws (toLowerCase s) p"
  shows "search_clause (toLowerCase s) p = Inr (search_passes s p)"
  using assms
  by (auto simp: search_clause_throws_def search_clause_def search_passes_def
      toLowerCase_empty includes_str_sublist split: option.splits)

lemma array_includes_passes:
  "(accepted = [] \<or> array_includes accepted v) = member_passes accepted v"
  by (simp add: array_includes_def member_passes_def)

lemma price_clause_passes:
  "(js_ge (ToNumber v) (Finite lo) \<and> js_le (ToNumber v) (upper_bound hi)) = price_passes lo hi v"
proof (cases v)
  case None
  then show ?thesis by (simp add: js_ge_def)
next
  case (Some n)
  then show ?thesis by (cases n; cases hi) (auto simp: js_ge_def)
qed

lemma filter_callback_satisfies:
  assumes "\<not> search_clause_throws (toLowerCase s) p"
  shows "filter_callback (toLowerCase s) stats typs (Finite lo) (upper_bound hi) p =
         Inr (satisfies_clauses s stats typs lo hi p)"
  unfolding filter_callback_def satisfies_clauses_def
  by (simp add: search_clause_passes [OF assms] array_includes_passes price_clause_passes)

text \<open>
  C5, as the code has it. For every sequence of records on which the search clause does
  not throw (the search string is empty, or each record has a name and, where the name
  does not match, a location), every numeric minimum and every numeric or unset maximum,
  the filterer keeps exactly the records that satisfy the conjunction of the search
  clause, the status clause, the type clause and the price clause, in their original
  order. An absent status, type or price fails its clause when the clause is active, and
  the price clause always is. The route lowercases the search string when it reads the
  query, so the filterer receives \<open>toLowerCase s\<close>.
\<close>

theorem filterer_keeps_conjunction:
  assumes "\<forall>p \<in> set properties. \<not> search_clause_throws (toLowerCase s) p"
  shows "Array_filter (filter_callback (toLowerCase s) stats typs (Finite lo) (upper_bound hi))
           properties =
         Inr (filter (satisfies_clauses s stats typs lo hi) properties)"
  using assms by (intro Array_filter_total) (simp add: filter_callback_satisfies)

theorem filterer_keeps_conjunction_witness:
  "\<not> search_clause_throws (toLowerCase ''VILLA'') sample_villa \<and>
   \<not> search_clause_throws (toLowerCase ''VILLA'') sample_flat \<and>
   \<not> search_clause_throws (toLowerCase ''VILLA'') (sample_house\<lparr>property.type := None\<rparr>) \<and>
   Array_filter (filter_callback (toLowerCase ''VILLA'') [] [] (Finite 0) (upper_bound None))
     [sample_villa, sample_flat, sample_house\<lparr>property.type := None\<rparr>] = Inr [sample_villa] \<and>
   \<not> search_clause_throws (toLowerCase []) sample_villa \<and>
   \<not> search_clause_throws (toLowerCase []) sample_flat \<and>
   \<not> search_clause_throws (toLowerCase []) (sample_house\<lparr>property.type := None\<rparr>) \<and>
   Array_filter (filter_callback (toLowerCase []) [''active''] [] (Finite 60) (upper_bound None))
     [sample_villa, sample_flat, sample_house\<lparr>property.type := None\<rparr>] =
     Inr [sample_villa, sample_house\<lparr>property.type := None\<rparr>]"
proof -
  let ?ps = "[sample_villa, sample_flat, sample_house\<lparr>property.type := None\<rparr>]"
  have t: "\<not> search_clause_throws (toLowerCase ''VILLA'') sample_villa"
    "\<not> search_clause_throws (toLowerCase ''VILLA'') sample_flat"
    "\<not> search_clause_throws (toLowerCase ''VILLA'') (sample_house\<lparr>property.type := None\<rparr>)"
    by (simp_all add: search_clause_throws_def sample_villa_def sample_flat_def
        sample_house_def)
  have e: "\<not> search_clause_throws (toLowerCase []) sample_villa"
    "\<not> search_clause_throws (toLowerCase []) sample_flat"
    "\<not> search_clause_throws (toLowerCase []) (sample_house\<lparr>property.type := None\<rparr>)"
    by (simp_all add: search_clause_throws_def toLowerCase_def)
  have s1: "satisfies_clauses ''VILLA'' [] [] 0 None sample_villa"
    "\<not> satisfies_clauses ''VILLA'' [] [] 0 None sample_flat"
    "\<not> satisfies_clauses ''VILLA'' [] [] 0 None (sample_house\<lparr>property.type := None\<rparr>)"
    by code_simp+
  have s2: "satisfies_clauses [] [''active''] [] 60 None sample_villa"
    "\<not> satisfies_clauses [] [''active''] [] 60 None sample_flat"
    "satisfies_clauses [] [''active''] [] 60 None (sample_house\<lparr>property.type := None\<rparr>)"
    by code_simp+
  from t have "\<forall>p \<in> set ?ps. \<not> search_clause_throws (toLowerCase ''VILLA'') p" by simp
  from filterer_keeps_conjunction [OF this, of "[]" "[]" 0 None] s1
  have a: "Array_filter (filter_callback (toLowerCase ''VILLA'') [] [] (Finite 0) (upper_bound None))
     ?ps = Inr [sample_villa]" by simp
  from e have "\<forall>p \<in> set ?ps. \<not> search_clause_throws (toLowerCase []) p" by simp
  from filterer_keeps_conjunction [OF this, of "[''active'']" "[]" 60 None] s2
  have b: "Array_filter (filter_callback (toLowerCase []) [''active''] [] (Finite 60) (upper_bound None))
     ?ps = Inr [sample_villa, sample_house\<lparr>property.type := None\<rparr>]" by simp
  from t e a b show ?thesis by simp
qed

text \<open>The claim as stated fails on a record without a name whose location matches the
  search: the record satisfies the conjunction of the clauses, and the filterer keeps
  nothing, it throws.\<close>

theorem absent_name_with_matching_location_counterexample:
  "satisfies_clauses ''kampot'' [] [] 0 None (sample_house\<lparr>name := None\<rparr>) \<and>
   Array_filter (filter_callback (toLowerCase ''kampot'') [] [] (Finite 0) (upper_bound None))
     [sample_house\<lparr>name := None\<rparr>] = Inl TypeError"
proof -
  have "satisfies_clauses ''kampot'' [] [] 0 None (sample_house\<lparr>name := None\<rparr>)"
    by code_simp
  moreover have "Array_filter
     (filter_callback (toLowerCase ''kampot'') [] [] (Finite 0) (upper_bound None))
     [sample_house\<lparr>name := None\<rparr>] = Inl TypeError"
    by (simp add: filter_callback_def search_clause_def sample_house_def toLowerCase_empty)
  ultimately show ?thesis by simp
qed

text \<open>The callback throws exactly when the search clause does, and only a
  \<open>TypeError\<close>.\<close>

lemma filter_callback_throws:
  "filter_callback srch stats typs minP maxP p = Inl TypeError \<longleftrightarrow>
   search_clause_throws srch p"
  by (auto simp: filter_callback_def search_clause_def search_clause_throws_def
      split: option.splits)

lemma filter_callback_value:
  assumes "\<not> search_clause_throws srch p"
  shows "\<exists>b. filter_callback srch stats typs minP maxP p = Inr b"
  using assms filter_callback_throws [of srch stats typs minP maxP p]
  by (cases "filter_callback srch stats typs minP maxP p") (auto, metis error.exhaust)

lemma filter_callback_absent:
  assumes "filter_callback srch stats typs minP maxP p = Inr True"
  shows "(stats \<noteq> [] \<longrightarrow> property.status p \<noteq> None) \<and>
         (typs \<noteq> [] \<longrightarrow> property.type p \<noteq> None) \<and>
         price p \<noteq> None"
proof (intro conjI impI notI)
  assume "stats \<noteq> []" "property.status p = None"
  with assms show False
    by (simp add: filter_callback_def array_includes_def split: sum.splits)
next
  assume "typs \<noteq> []" "property.type p = None"
  with assms show False
    by (simp add: filter_callback_def array_includes_def split: sum.splits)
next
  assume "price p = None"
  with assms show False
    by (simp add: filter_callback_def js_ge_def js_le_NaN_right split: sum.splits)
qed

text \<open>
  C4, as the code has it. When the search clause throws on no record (the search is
  empty, or each name is present and either matches or comes with a location), the
  filterer returns without an error, and no record it keeps lacks a field that a
  non-empty clause inspects: the status under a non-empty status set, the type under a
  non-empty type set, and the price, which the price clause always inspects.
\<close>

theorem absent_field_is_no_match:
  assumes "\<forall>p \<in> set properties. \<not> search_clause_throws srch p"
  shows "\<exists>kept. Array_filter (filter_callback srch stats typs minP maxP) properties = Inr kept \<and>
           (\<forall>p \<in> set kept.
              (stats \<noteq> [] \<longrightarrow> property.status p \<noteq> None) \<and>
              (typs \<noteq> [] \<longrightarrow> property.type p \<noteq> None) \<and>
              price p \<noteq> None)"
proof -
  let ?f = "filter_callback srch stats typs minP maxP"
  have "\<forall>p \<in> set properties. ?f p = Inr (?f p = Inr True)"
  proof
    fix p assume "p \<in> set properties"
    with assms have "\<not> search_clause_throws srch p" by blast
    then obtain b where "?f p = Inr b" using filter_callback_value by blast
    then show "?f p = Inr (?f p = Inr True)" by simp
  qed
  then have "Array_filter ?f properties = Inr (filter (\<lambda>p. ?f p = Inr True) properties)"
    by (rule Array_filter_total)
  moreover have "\<forall>p \<in> set (filter (\<lambda>p. ?f p = Inr True) properties).
              (stats \<noteq> [] \<longrightarrow> property.status p \<noteq> None) \<and>
              (typs \<noteq> [] \<longrightarrow> property.type p \<noteq> None) \<and>
              price p \<noteq> None"
    using filter_callback_absent by auto
  ultimately show ?thesis by blast
qed

theorem absent_field_is_no_match_witness:
  "\<not> search_clause_throws [] sample_villa \<and>
   \<not> search_clause_throws [] (sample_flat\<lparr>property.status := None\<rparr>) \<and>
   \<not> search_clause_throws [] (sample_house\<lparr>price := None\<rparr>) \<and>
   (\<exists>kept. Array_filter (filter_callback [] [''active'', ''draft''] [] (Finite 0) Infinity)
             [sample_villa, sample_flat\<lparr>property.status := None\<rparr>, sample_house\<lparr>price := None\<rparr>] = Inr kept \<and>
           kept = [sample_villa])"
proof -
  have t: "\<not> search_clause_throws [] sample_villa"
    "\<not> search_clause_throws [] (sample_flat\<lparr>property.status := None\<rparr>)"
    "\<not> search_clause_throws [] (sample_house\<lparr>price := None\<rparr>)"
    by (simp_all add: search_clause_throws_def)
  then have "\<forall>p \<in> set [sample_villa, sample_flat\<lparr>property.status := None\<rparr>, sample_house\<lparr>price := None\<rparr>].
               \<not> search_clause_throws [] p"
    by simp
  from absent_field_is_no_match [OF this, of "[''active'', ''draft'']" "[]" "Finite 0" Infinity]
  obtain kept where
    k: "Array_filter (filter_callback [] [''active'', ''draft''] [] (Finite 0) Infinity)
          [sample_villa, sample_flat\<lparr>property.status := None\<rparr>, sample_house\<lparr>price := None\<rparr>] = Inr kept"
    by blast
  have "Array_filter (filter_callback [] [''active'', ''draft''] [] (Finite 0) Infinity)
          [sample_villa, sample_flat\<lparr>property.status := None\<rparr>, sample_house\<lparr>price := None\<rparr>] = Inr [sample_villa]"
    by (simp add: filter_callback_def search_clause_def array_includes_def js_ge_def
        sample_villa_def sample_flat_def sample_house_def)
  with t k show ?thesis by simp
qed

text \<open>The claim as stated fails on a record without a name under a non-empty search: the
  filterer throws.\<close>

theorem absent_name_counterexample:
  "Array_filter (filter_callback ''villa'' [] [] (Finite 0) Infinity)
     [sample_villa\<lparr>name := None\<rparr>] = Inl TypeError"
  by (simp add: filter_callback_def search_clause_def sample_villa_def)

section \<open>Properties of the paginator\<close>

lemma js_truncate_of_int: "js_truncate (of_int i) = i"
  by (simp add: js_truncate_def)

lemma relative_index_int:
  "relative_index len (Finite (of_int i)) = (if i < 0 then max (len + i) 0 else min i len)"
  by (simp add: js_truncate_of_int)

lemma paginate_int:
  "paginate xs (Finite (of_int p)) (Finite (of_int L)) =
     take (nat (relative_index (int (length xs)) (Finite (of_int (p * L))) -
                relative_index (int (length xs)) (Finite (of_int ((p - 1) * L)))))
       (drop (nat (relative_index (int (length xs)) (Finite (of_int ((p - 1) * L))))) xs)"
proof -
  have "js_times (js_minus (Finite (of_int p)) (Finite 1)) (Finite (of_int L)) =
        Finite (of_int ((p - 1) * L))"
    by simp
  moreover have "js_plus (Finite (of_int ((p - 1) * L))) (Finite (of_int L)) =
        Finite (of_int (p * L))"
    by (simp add: algebra_simps)
  ultimately show ?thesis
    by (simp only: paginate_def slice_def Let_def)
qed

lemma total_pages_int:
  assumes "L \<noteq> 0"
  shows "total_pages xs (Finite (of_int L)) = Finite (of_int \<lceil>of_nat (length xs) / (of_int L :: rat)\<rceil>)"
  using assms by (simp add: total_pages_def)

lemma page_zero_empty:
  assumes "0 < L"
  shows "paginate xs (Finite 0) (Finite (of_int L)) = []"
proof -
  have "paginate xs (Finite (of_int 0)) (Finite (of_int L)) = []"
    unfolding paginate_int relative_index_int using assms by simp
  then show ?thesis by simp
qed

lemma page_beyond_empty:
  assumes "0 < L" and tp: "total_pages xs (Finite (of_int L)) = Finite (of_int T)" and "T < p"
  shows "paginate xs (Finite (of_int p)) (Finite (of_int L)) = []"
proof -
  let ?n = "int (length xs)"
  from assms(1) tp have "(of_int T :: rat) = of_int \<lceil>of_nat (length xs) / (of_int L :: rat)\<rceil>"
    by (simp add: total_pages_int)
  then have T: "T = \<lceil>of_nat (length xs) / (of_int L :: rat)\<rceil>" by simp
  have "of_nat (length xs) / (of_int L :: rat) \<le> of_int T"
    unfolding T by (rule le_of_int_ceiling)
  with assms(1) have "(of_nat (length xs) :: rat) \<le> of_int T * of_int L"
    by (simp add: pos_divide_le_eq)
  then have "(of_int ?n :: rat) \<le> of_int (T * L)" by simp
  then have "?n \<le> T * L" by (simp only: of_int_le_iff)
  also from \<open>T < p\<close> assms(1) have "T * L \<le> (p - 1) * L"
    by (intro mult_right_mono) simp_all
  finally have ge: "?n \<le> (p - 1) * L" .
  then have "relative_index ?n (Finite (of_int ((p - 1) * L))) = ?n"
    unfolding relative_index_int by simp
  then show ?thesis unfolding paginate_int by simp
qed

lemma page_negative_empty:
  assumes "0 < L" and "p < 0"
  shows "paginate xs (Finite (of_int p)) (Finite (of_int L)) = [] \<longleftrightarrow> int (length xs) \<le> - p * L"
proof -
  let ?n = "int (length xs)"
  from assms have neg: "p * L < 0" "(p - 1) * L < 0"
    by (simp_all add: mult_neg_pos)
  have lt: "(p - 1) * L < p * L" using assms by (simp add: algebra_simps)
  show ?thesis
  proof (cases "?n \<le> - p * L")
    case True
    then have "relative_index ?n (Finite (of_int (p * L))) = 0"
      unfolding relative_index_int using neg by simp
    then show ?thesis using True unfolding paginate_int by simp
  next
    case False
    then have f: "relative_index ?n (Finite (of_int (p * L))) = ?n + p * L"
      unfolding relative_index_int using neg by simp
    let ?k = "relative_index ?n (Finite (of_int ((p - 1) * L)))"
    have k: "?k = max (?n + (p - 1) * L) 0"
      unfolding relative_index_int using neg by simp
    have "?k < ?n + p * L" using False lt unfolding k by simp
    moreover have "0 < ?n" using False neg by linarith
    then have "0 \<le> ?k" "?k < ?n" using neg unfolding k by simp_all
    ultimately have "0 < nat (?n + p * L - ?k)" "nat ?k < length xs"
      by simp_all
    then have "take (nat (?n + p * L - ?k)) (drop (nat ?k) xs) \<noteq> []"
      by simp
    then show ?thesis using False unfolding paginate_int f by simp
  qed
qed

lemma total_pages_example: "total_pages [0 ..< 25] (Finite 10) = Finite 3"
proof -
  have "\<lceil>(5::rat) / 2\<rceil> = 3" by (simp add: ceiling_unique)
  then show ?thesis by (simp add: total_pages_def)
qed

text \<open>
  C2, as the code has it. For a positive page size, page 0 and every page beyond
  \<open>totalPages\<close> give the empty slice. A negative page gives the empty slice exactly
  when the sequence has at most \<open>|page| * limit\<close> elements: \<open>slice\<close> counts a negative
  bound from the end of the array. \<open>paginate\<close> is a total function: no page raises
  an error.
\<close>

theorem out_of_range_pages:
  assumes "0 < L"
  shows "paginate xs (Finite 0) (Finite (of_int L)) = [] \<and>
         (\<forall>T p. total_pages xs (Finite (of_int L)) = Finite (of_int T) \<and> T < p \<longrightarrow>
                 paginate xs (Finite (of_int p)) (Finite (of_int L)) = []) \<and>
         (\<forall>p. p < 0 \<longrightarrow>
              (paginate xs (Finite (of_int p)) (Finite (of_int L)) = [] \<longleftrightarrow>
               int (length xs) \<le> - p * L))"
  using assms page_zero_empty page_beyond_empty page_negative_empty by blast

theorem out_of_range_pages_witness:
  "(0::int) < 10 \<and>
   paginate [0 ..< 25] (Finite 0) (Finite 10) = [] \<and>
   total_pages [0 ..< 25] (Finite 10) = Finite 3 \<and>
   paginate [0 ..< 25] (Finite 4) (Finite 10) = [] \<and>
   paginate [0 ..< 25] (Finite (- 3)) (Finite 10) = []"
proof -
  have pos: "(0::int) < 10" by simp
  note th = out_of_range_pages [OF pos, of "[0 ..< 25]"]
  have tp': "total_pages [0 ..< 25] (Finite (of_int 10)) = Finite (of_int 3)"
    using total_pages_example by simp
  from th have a: "paginate [0 ..< 25] (Finite 0) (Finite (of_int 10)) = []"
    by (rule conjunct1)
  from th have
    "total_pages [0 ..< 25] (Finite (of_int 10)) = Finite (of_int 3) \<and> (3::int) < 4 \<longrightarrow>
     paginate [0 ..< 25] (Finite (of_int 4)) (Finite (of_int 10)) = []"
    by blast
  with tp' have b: "paginate [0 ..< 25] (Finite (of_int 4)) (Finite (of_int 10)) = []"
    by simp
  from th have
    "(- 3 :: int) < 0 \<longrightarrow>
     (paginate [0 ..< 25] (Finite (of_int (- 3))) (Finite (of_int 10)) = [] \<longleftrightarrow>
      int (length [0 ..< 25]) \<le> - (- 3) * 10)"
    by blast
  then have c: "paginate [0 ..< 25] (Finite (of_int (- 3))) (Finite (of_int 10)) = []"
    by simp
  from a b c total_pages_example show ?thesis by simp
qed

text \<open>The claim as stated fails at page \<open>-1\<close> with 25 records and the limit 10: the
  slice holds ten records.\<close>

theorem negative_page_counterexample:
  "paginate [0 ..< 25] (Finite (- 1)) (Finite 10) = [5 ..< 15] \<and>
   paginate [0 ..< 25] (Finite (- 1)) (Finite 10) \<noteq> []"
proof -
  have "paginate [0 ..< 25] (Finite (of_int (- 1))) (Finite (of_int 10)) = [5 ..< 15]"
    unfolding paginate_int relative_index_int by (simp add: take_drop drop_upt take_upt)
  then show ?thesis by simp
qed


section \<open>Properties of the update helpers\<close>

text \<open>
  C9. \<open>updateFilter\<close> and \<open>updateArrayFilter\<close> always produce a state whose page is 1,
  whatever the key, the value and the previous page. \<open>toggleSort\<close> keeps the previous
  page and \<open>changePage\<close> sets the page it is given, so neither resets the page to 1.
\<close>

theorem update_helpers_reset_page:
  "(\<forall>kv prev. page (updateFilter kv prev) = 1) \<and>
   (\<forall>k v prev. page (updateArrayFilter k v prev) = 1) \<and>
   (\<forall>prev. page (toggleSort prev) = page prev) \<and>
   (\<forall>newPage prev. page (changePage newPage prev) = newPage) \<and>
   (\<exists>prev. page (toggleSort prev) \<noteq> 1) \<and>
   (\<exists>newPage prev. page (changePage newPage prev) \<noteq> 1)"
proof (intro conjI allI)
  fix kv prev show "page (updateFilter kv prev) = 1"
    by (simp add: updateFilter_def)
next
  fix k v prev show "page (updateArrayFilter k v prev) = 1"
    by (cases k) simp_all
next
  fix prev show "page (toggleSort prev) = page prev"
    by (simp add: toggleSort_def)
next
  fix newPage prev show "page (changePage newPage prev) = newPage"
    by (simp add: changePage_def)
next
  have "page (toggleSort (initialFilters\<lparr>page := 2\<rparr>)) \<noteq> 1"
    by (simp add: toggleSort_def)
  then show "\<exists>prev. page (toggleSort prev) \<noteq> 1" by blast
next
  have "page (changePage 2 initialFilters) \<noteq> 1"
    by (simp add: changePage_def)
  then show "\<exists>newPage prev. page (changePage newPage prev) \<noteq> 1" by blast
qed

lemma toggled_member: "v \<in> set (toggled xs v) \<longleftrightarrow> v \<notin> set xs"
  by (simp add: toggled_def)

lemma toggled_others: "filter (\<lambda>w. w \<noteq> v) (toggled xs v) = filter (\<lambda>w. w \<noteq> v) xs"
  by (simp add: toggled_def)

lemma array_field_update:
  "array_field k (updateArrayFilter k v prev) = toggled (array_field k prev) v"
  by (cases k) simp_all

text \<open>
  C10. One application of \<open>updateArrayFilter\<close> to the status or the type array toggles
  the membership of the value: it is in the new array exactly when it was not in the old
  one. The other elements are kept, in their order and with their multiplicity.
\<close>

theorem updateArrayFilter_toggles:
  "(v \<in> set (array_field k (updateArrayFilter k v prev)) \<longleftrightarrow> v \<notin> set (array_field k prev)) \<and>
   filter (\<lambda>w. w \<noteq> v) (array_field k (updateArrayFilter k v prev)) =
     filter (\<lambda>w. w \<noteq> v) (array_field k prev)"
  by (simp only: array_field_update toggled_member toggled_others)

section \<open>Properties of the sorter\<close>

lemma insert_by_not_positive:
  "\<forall>y \<in> set ys. \<not> is_positive (cmp x y) \<Longrightarrow> insert_by cmp x ys = x # ys"
  by (cases ys) simp_all

lemma Array_sort_never_positive:
  "(\<And>a b. \<not> is_positive (cmp a b)) \<Longrightarrow> Array_sort cmp xs = xs"
  unfolding Array_sort_def
  by (induction xs) (simp_all add: insert_by_not_positive)

lemma compareFn_unknown:
  "sort_by \<noteq> ''price'' \<Longrightarrow> sort_by \<noteq> ''rating'' \<Longrightarrow> sort_by \<noteq> ''last_updated'' \<Longrightarrow>
   compareFn Date_parse sort_by order a b = Finite 0"
  by (simp add: compareFn_def)

lemma consistent_constant: "(\<And>a b. cmp a b = Finite 0) \<Longrightarrow> consistent cmp xs"
  by (simp add: consistent_def)

text \<open>
  C6. For a sort field that is none of \<open>price\<close>, \<open>rating\<close> and \<open>last_updated\<close> the
  comparator is constantly zero and the sorter returns the filtered sequence as it is.
  The constant comparator is consistent, so this order is the only outcome of the sort.
\<close>

theorem unknown_sort_field_is_noop:
  assumes "sort_by \<notin> {''price'', ''rating'', ''last_updated''}"
  shows "Array_sort (compareFn Date_parse sort_by order) filtered = filtered \<and>
         (\<forall>ys. sort_outcome (compareFn Date_parse sort_by order) filtered ys \<longrightarrow>
               ys = filtered)"
proof -
  from assms have zero: "\<And>a b. compareFn Date_parse sort_by order a b = Finite 0"
    by (simp add: compareFn_unknown)
  then have "\<And>a b. \<not> is_positive (compareFn Date_parse sort_by order a b)" by simp
  then have same: "Array_sort (compareFn Date_parse sort_by order) filtered = filtered"
    by (rule Array_sort_never_positive)
  from zero have "consistent (compareFn Date_parse sort_by order) filtered"
    by (rule consistent_constant)
  with same show ?thesis by (simp add: sort_outcome_def)
qed

theorem unknown_sort_field_is_noop_witness:
  "''name'' \<notin> {''price'', ''rating'', ''last_updated''} \<and>
   Array_sort (compareFn (\<lambda>s. NaN) ''name'' ''asc'') [sample_villa, sample_flat] =
     [sample_villa, sample_flat] \<and>
   sort_outcome (compareFn (\<lambda>s. NaN) ''name'' ''asc'') [sample_villa, sample_flat]
     [sample_villa, sample_flat]"
proof -
  have n: "''name'' \<notin> {''price'', ''rating'', ''last_updated''}" by simp
  note th = unknown_sort_field_is_noop
              [OF n, of "\<lambda>s. NaN" "''asc''" "[sample_villa, sample_flat]"]
  from th have a: "Array_sort (compareFn (\<lambda>s. NaN) ''name'' ''asc'')
         [sample_villa, sample_flat] = [sample_villa, sample_flat]"
    by (rule conjunct1)
  have "consistent (compareFn (\<lambda>s. NaN) ''name'' ''asc'') [sample_villa, sample_flat]"
    by (rule consistent_constant) (simp add: compareFn_def)
  with a have "sort_outcome (compareFn (\<lambda>s. NaN) ''name'' ''asc'')
         [sample_villa, sample_flat] [sample_villa, sample_flat]"
    by (simp add: sort_outcome_def)
  with n a show ?thesis by simp
qed

lemma js_minus_self: "\<not> is_positive (js_minus a a)"
  by (cases a) simp_all

lemma compareFn_positive_keys:
  assumes "is_positive (compareFn Date_parse sort_by order a b)"
  shows "sorting_key Date_parse sort_by a \<noteq> sorting_key Date_parse sort_by b"
proof
  assume eq: "sorting_key Date_parse sort_by a = sorting_key Date_parse sort_by b"
  have "\<not> is_positive (compareFn Date_parse sort_by order a b)"
  proof (cases "sort_by = ''last_updated''")
    case True
    with eq have "getTime Date_parse (last_updated a) = getTime Date_parse (last_updated b)"
      by (simp add: sorting_key_def)
    with True show ?thesis by (simp add: compareFn_def js_minus_self)
  next
    case False
    with eq have "sort_field sort_by a = sort_field sort_by b"
      by (simp add: sorting_key_def)
    with False show ?thesis by (auto simp: compareFn_def js_minus_self)
  qed
  with assms show False by simp
qed

lemma filter_insert_by:
  assumes "\<And>y. is_positive (cmp x y) \<Longrightarrow> key x \<noteq> key y"
  shows "filter (\<lambda>r. key r = k) (insert_by cmp x ys) = filter (\<lambda>r. key r = k) (x # ys)"
  using assms by (induction ys) auto

lemma Array_sort_stable:
  assumes "\<And>x y. is_positive (cmp x y) \<Longrightarrow> key x \<noteq> key y"
  shows "filter (\<lambda>r. key r = k) (Array_sort cmp xs) = filter (\<lambda>r. key r = k) xs"
proof (induction xs)
  case Nil
  show ?case by (simp add: Array_sort_def)
next
  case (Cons x xs)
  have "filter (\<lambda>r. key r = k) (Array_sort cmp (x # xs)) =
        filter (\<lambda>r. key r = k) (insert_by cmp x (Array_sort cmp xs))"
    by (simp add: Array_sort_def)
  also have "\<dots> = filter (\<lambda>r. key r = k) (x # Array_sort cmp xs)"
    using assms by (rule filter_insert_by)
  also have "\<dots> = filter (\<lambda>r. key r = k) (x # xs)"
    using Cons.IH by simp
  finally show ?case .
qed

lemma compareFn_keys:
  assumes "sort_by \<in> {''price'', ''rating'', ''last_updated''}"
  shows "compareFn Date_parse sort_by order a b =
         (if order = ''asc''
          then js_minus (sorting_key Date_parse sort_by a) (sorting_key Date_parse sort_by b)
          else js_minus (sorting_key Date_parse sort_by b) (sorting_key Date_parse sort_by a))"
  using assms by (auto simp: compareFn_def sorting_key_def)

lemma isFinite_iff: "isFinite v \<longleftrightarrow> (\<exists>q. v = Finite q)"
  by (cases v) simp_all

lemma consistent_compareFn:
  assumes f: "sort_by \<in> {''price'', ''rating'', ''last_updated''}"
      and k: "\<forall>r \<in> set xs. isFinite (sorting_key Date_parse sort_by r)"
  shows "consistent (compareFn Date_parse sort_by order) xs"
  unfolding consistent_def
proof (intro ballI)
  fix a b c
  assume "a \<in> set xs" "b \<in> set xs" "c \<in> set xs"
  with k have "isFinite (sorting_key Date_parse sort_by a)"
    "isFinite (sorting_key Date_parse sort_by b)" "isFinite (sorting_key Date_parse sort_by c)"
    by simp_all
  then obtain ka kb kc where
    k': "sorting_key Date_parse sort_by a = Finite ka" "sorting_key Date_parse sort_by b = Finite kb"
        "sorting_key Date_parse sort_by c = Finite kc"
    unfolding isFinite_iff by blast
  let ?cmp = "compareFn Date_parse sort_by order"
  show "?cmp a b \<noteq> NaN \<and> ?cmp a a = Finite 0 \<and>
      (?cmp a b = Finite 0 \<longrightarrow> ?cmp b a = Finite 0) \<and>
      (?cmp a b = Finite 0 \<and> ?cmp b c = Finite 0 \<longrightarrow> ?cmp a c = Finite 0) \<and>
      (is_negative (?cmp a b) \<and> is_negative (?cmp b c) \<longrightarrow> is_negative (?cmp a c)) \<and>
      (is_positive (?cmp a b) \<and> is_positive (?cmp b c) \<longrightarrow> is_positive (?cmp a c))"
    by (simp add: compareFn_keys [OF f] k')
qed

lemma mset_insert_by: "mset (insert_by cmp x ys) = add_mset x (mset ys)"
  by (induction ys) auto

lemma mset_Array_sort: "mset (Array_sort cmp xs) = mset xs"
  by (induction xs) (simp_all add: Array_sort_def mset_insert_by)

lemma Array_sort_outcome: "sort_outcome cmp xs (Array_sort cmp xs)"
  by (simp add: sort_outcome_def mset_Array_sort)

text \<open>
  C7, as the code has it. For each recognised sort field and either direction, on an
  input whose sort keys are all finite numbers (each record has the price, the rating or
  the valid date that the sort field reads), the sorter is stable: the records that have
  one and the same sort key come out in the order they went in. Such keys make the
  comparator consistent, and then the language fixes the outcome.
\<close>

theorem sorter_is_stable:
  assumes "sort_by \<in> {''price'', ''rating'', ''last_updated''}"
      and "\<forall>r \<in> set xs. isFinite (sorting_key Date_parse sort_by r)"
      and "sort_outcome (compareFn Date_parse sort_by order) xs ys"
  shows "filter (\<lambda>r. sorting_key Date_parse sort_by r = k) ys =
         filter (\<lambda>r. sorting_key Date_parse sort_by r = k) xs"
proof -
  from assms(1,2) have "consistent (compareFn Date_parse sort_by order) xs"
    by (rule consistent_compareFn)
  with assms(3) have "ys = Array_sort (compareFn Date_parse sort_by order) xs"
    by (simp add: sort_outcome_def)
  then show ?thesis
    by (simp add: Array_sort_stable [OF compareFn_positive_keys])
qed

theorem sorter_is_stable_witness:
  "''price'' \<in> {''price'', ''rating'', ''last_updated''} \<and>
   isFinite (sorting_key (\<lambda>s. NaN) ''price'' sample_villa) \<and>
   isFinite (sorting_key (\<lambda>s. NaN) ''price'' sample_flat) \<and>
   isFinite (sorting_key (\<lambda>s. NaN) ''price'' sample_house) \<and>
   sort_outcome (compareFn (\<lambda>s. NaN) ''price'' ''asc'')
     [sample_villa, sample_flat, sample_house] [sample_flat, sample_villa, sample_house] \<and>
   filter (\<lambda>r. sorting_key (\<lambda>s. NaN) ''price'' r = Finite 100)
     [sample_flat, sample_villa, sample_house] = [sample_villa, sample_house]"
proof -
  let ?xs = "[sample_villa, sample_flat, sample_house]"
  have f: "''price'' \<in> {''price'', ''rating'', ''last_updated''}" by simp
  have k: "isFinite (sorting_key (\<lambda>s. NaN) ''price'' sample_villa)"
    "isFinite (sorting_key (\<lambda>s. NaN) ''price'' sample_flat)"
    "isFinite (sorting_key (\<lambda>s. NaN) ''price'' sample_house)"
    by (simp_all add: sorting_key_def sort_field_def sample_villa_def sample_flat_def
        sample_house_def)
  then have ks: "\<forall>r \<in> set ?xs. isFinite (sorting_key (\<lambda>s. NaN) ''price'' r)" by simp
  have "Array_sort (compareFn (\<lambda>s. NaN) ''price'' ''asc'') ?xs =
        [sample_flat, sample_villa, sample_house]"
    by (simp add: Array_sort_def compareFn_def sort_field_def sample_villa_def
        sample_flat_def sample_house_def)
  with Array_sort_outcome [of "compareFn (\<lambda>s. NaN) ''price'' ''asc''" ?xs]
  have o: "sort_outcome (compareFn (\<lambda>s. NaN) ''price'' ''asc'') ?xs
             [sample_flat, sample_villa, sample_house]"
    by simp
  from sorter_is_stable [OF f ks o, of "Finite 100"]
  have "filter (\<lambda>r. sorting_key (\<lambda>s. NaN) ''price'' r = Finite 100)
          [sample_flat, sample_villa, sample_house] =
        filter (\<lambda>r. sorting_key (\<lambda>s. NaN) ''price'' r = Finite 100) ?xs" .
  also have "\<dots> = [sample_villa, sample_house]"
    by (simp add: sorting_key_def sort_field_def sample_villa_def sample_flat_def
        sample_house_def)
  finally show ?thesis using f k o by simp
qed

lemma rated_simps:
  "rating (rated i r) = r" "property.id (rated i r) = i"
  by (simp_all add: rated_def)

lemma rated_eq: "rated i r = rated j q \<longleftrightarrow> i = j \<and> r = q"
proof
  assume "rated i r = rated j q"
  then have "property.id (rated i r) = property.id (rated j q)"
    and "rating (rated i r) = rating (rated j q)"
    by simp_all
  then show "i = j \<and> r = q" by (simp add: rated_simps)
qed simp

text \<open>
  The claim as stated fails when a sort key is absent. In \<open>rated_input\<close> the fifth record
  has no rating, the comparator returns \<open>NaN\<close> on every pair with it and is not
  consistent, and the language leaves the order to the implementation. \<open>rated_outcome\<close>
  is a possible outcome, the one a binary insertion after reversing the descending
  initial run produces (the algorithm of V8 for short arrays): \<open>r6\<close> comes out before
  \<open>r5\<close>, both of rating 1.
\<close>

theorem absent_rating_counterexample:
  "sort_outcome (compareFn (\<lambda>s. NaN) ''rating'' ''asc'') rated_input rated_outcome \<and>
   filter (\<lambda>r. sorting_key (\<lambda>s. NaN) ''rating'' r = Finite 1) rated_input =
     [rated ''r1'' (Some (Finite 1)), rated ''r2'' (Some (Finite 1)),
      rated ''r3'' (Some (Finite 1)), rated ''r5'' (Some (Finite 1)),
      rated ''r6'' (Some (Finite 1))] \<and>
   filter (\<lambda>r. sorting_key (\<lambda>s. NaN) ''rating'' r = Finite 1) rated_outcome =
     [rated ''r1'' (Some (Finite 1)), rated ''r2'' (Some (Finite 1)),
      rated ''r3'' (Some (Finite 1)), rated ''r6'' (Some (Finite 1)),
      rated ''r5'' (Some (Finite 1))] \<and>
   filter (\<lambda>r. sorting_key (\<lambda>s. NaN) ''rating'' r = Finite 1) rated_outcome \<noteq>
   filter (\<lambda>r. sorting_key (\<lambda>s. NaN) ''rating'' r = Finite 1) rated_input"
proof -
  let ?cmp = "compareFn (\<lambda>s. NaN) ''rating'' ''asc''"
  have "?cmp (rated ''r4'' None) (rated ''r4'' None) = NaN"
    by (simp add: compareFn_def sort_field_def rated_simps)
  moreover have "rated ''r4'' None \<in> set rated_input"
    by (simp add: rated_input_def)
  ultimately have "\<not> consistent ?cmp rated_input"
    unfolding consistent_def by blast
  moreover have "mset rated_outcome = mset rated_input"
    by (simp add: rated_outcome_def rated_input_def)
  ultimately have o: "sort_outcome ?cmp rated_input rated_outcome"
    by (simp add: sort_outcome_def)
  have i: "filter (\<lambda>r. sorting_key (\<lambda>s. NaN) ''rating'' r = Finite 1) rated_input =
     [rated ''r1'' (Some (Finite 1)), rated ''r2'' (Some (Finite 1)),
      rated ''r3'' (Some (Finite 1)), rated ''r5'' (Some (Finite 1)),
      rated ''r6'' (Some (Finite 1))]"
    by (simp add: rated_input_def sorting_key_def sort_field_def rated_simps)
  have u: "filter (\<lambda>r. sorting_key (\<lambda>s. NaN) ''rating'' r = Finite 1) rated_outcome =
     [rated ''r1'' (Some (Finite 1)), rated ''r2'' (Some (Finite 1)),
      rated ''r3'' (Some (Finite 1)), rated ''r6'' (Some (Finite 1)),
      rated ''r5'' (Some (Finite 1))]"
    by (simp add: rated_outcome_def sorting_key_def sort_field_def rated_simps)
  have "rated ''r6'' (Some (Finite 1)) \<noteq> rated ''r5'' (Some (Finite 1))"
    by (simp add: rated_eq)
  with o i u show ?thesis by simp
qed

text \<open>\<open>Array_sort\<close> is a sort: it returns the elements it was given, in the order of
  the comparator when the keys are numbers.\<close>

lemma set_insert_by: "set (insert_by cmp x ys) = insert x (set ys)"
  by (induction ys) auto

lemma set_Array_sort: "set (Array_sort cmp xs) = set xs"
  by (induction xs) (simp_all add: Array_sort_def set_insert_by)

lemma length_insert_by: "length (insert_by cmp x ys) = Suc (length ys)"
  by (induction ys) auto

lemma length_Array_sort: "length (Array_sort cmp xs) = length xs"
  by (induction xs) (simp_all add: Array_sort_def length_insert_by)

lemma not_positive_minus:
  "a \<noteq> NaN \<Longrightarrow> b \<noteq> NaN \<Longrightarrow> (\<not> is_positive (js_minus a b)) = js_le a b"
  by (cases a; cases b) auto

lemma js_le_trans: "js_le a b \<Longrightarrow> js_le b c \<Longrightarrow> js_le a c"
  by (cases a; cases b; cases c) auto

lemma js_le_total: "a \<noteq> NaN \<Longrightarrow> b \<noteq> NaN \<Longrightarrow> \<not> js_le a b \<Longrightarrow> js_le b a"
  by (cases a; cases b) auto

lemma sorted_insert_by:
  assumes cmp: "\<And>a b. P a \<Longrightarrow> P b \<Longrightarrow> (\<not> is_positive (cmp a b)) = le a b"
      and total: "\<And>a b. P a \<Longrightarrow> P b \<Longrightarrow> \<not> le a b \<Longrightarrow> le b a"
      and trans: "\<And>a b c. le a b \<Longrightarrow> le b c \<Longrightarrow> le a c"
      and x: "P x"
      and ys: "\<forall>y \<in> set ys. P y" "sorted_wrt le ys"
  shows "sorted_wrt le (insert_by cmp x ys)"
  using ys
proof (induction ys)
  case Nil
  show ?case by simp
next
  case (Cons y ys)
  from Cons.prems have y: "P y" by simp
  show ?case
  proof (cases "is_positive (cmp x y)")
    case True
    with cmp [OF x y] have "\<not> le x y" by simp
    with total [OF x y] have "le y x" by simp
    with True Cons show ?thesis by (auto simp: set_insert_by)
  next
    case False
    with cmp [OF x y] have "le x y" by simp
    with False Cons.prems(2) show ?thesis by (auto intro: trans)
  qed
qed

lemma sorted_Array_sort:
  assumes cmp: "\<And>a b. P a \<Longrightarrow> P b \<Longrightarrow> (\<not> is_positive (cmp a b)) = le a b"
      and total: "\<And>a b. P a \<Longrightarrow> P b \<Longrightarrow> \<not> le a b \<Longrightarrow> le b a"
      and trans: "\<And>a b c. le a b \<Longrightarrow> le b c \<Longrightarrow> le a c"
      and xs: "\<forall>y \<in> set xs. P y"
  shows "sorted_wrt le (Array_sort cmp xs)"
  using xs
proof (induction xs)
  case Nil
  show ?case by (simp add: Array_sort_def)
next
  case (Cons x xs)
  then have "sorted_wrt le (Array_sort cmp xs)" by simp
  moreover from Cons.prems have "P x" "\<forall>y \<in> set (Array_sort cmp xs). P y"
    by (simp_all add: set_Array_sort)
  ultimately have "sorted_wrt le (insert_by cmp x (Array_sort cmp xs))"
    using cmp total trans by (intro sorted_insert_by [where P = P]) blast+
  then show ?case by (simp add: Array_sort_def)
qed

text \<open>On records whose sort keys are numbers the sorter sorts: ascending when the order is
  \<open>asc\<close>, descending for every other order.\<close>

lemma sorter_sorts:
  assumes f: "sort_by \<in> {''price'', ''rating'', ''last_updated''}"
      and k: "\<forall>r \<in> set xs. sorting_key Date_parse sort_by r \<noteq> NaN"
  shows "sorted_wrt
           (\<lambda>a b. if order = ''asc''
                  then js_le (sorting_key Date_parse sort_by a) (sorting_key Date_parse sort_by b)
                  else js_le (sorting_key Date_parse sort_by b) (sorting_key Date_parse sort_by a))
           (Array_sort (compareFn Date_parse sort_by order) xs)"
proof (rule sorted_Array_sort [where P = "\<lambda>r. sorting_key Date_parse sort_by r \<noteq> NaN"])
  fix a b
  assume "sorting_key Date_parse sort_by a \<noteq> NaN" "sorting_key Date_parse sort_by b \<noteq> NaN"
  then show "(\<not> is_positive (compareFn Date_parse sort_by order a b)) =
        (if order = ''asc''
         then js_le (sorting_key Date_parse sort_by a) (sorting_key Date_parse sort_by b)
         else js_le (sorting_key Date_parse sort_by b) (sorting_key Date_parse sort_by a))"
    by (simp add: compareFn_keys [OF f] not_positive_minus)
next
  fix a b
  assume "sorting_key Date_parse sort_by a \<noteq> NaN" "sorting_key Date_parse sort_by b \<noteq> NaN"
     and "\<not> (if order = ''asc''
         then js_le (sorting_key Date_parse sort_by a) (sorting_key Date_parse sort_by b)
         else js_le (sorting_key Date_parse sort_by b) (sorting_key Date_parse sort_by a))"
  then show "if order = ''asc''
         then js_le (sorting_key Date_parse sort_by b) (sorting_key Date_parse sort_by a)
         else js_le (sorting_key Date_parse sort_by a) (sorting_key Date_parse sort_by b)"
    by (auto simp: js_le_total split: if_splits)
next
  fix a b c
  assume "if order = ''asc''
         then js_le (sorting_key Date_parse sort_by a) (sorting_key Date_parse sort_by b)
         else js_le (sorting_key Date_parse sort_by b) (sorting_key Date_parse sort_by a)"
     and "if order = ''asc''
         then js_le (sorting_key Date_parse sort_by b) (sorting_key Date_parse sort_by c)
         else js_le (sorting_key Date_parse sort_by c) (sorting_key Date_parse sort_by b)"
  then show "if order = ''asc''
         then js_le (sorting_key Date_parse sort_by a) (sorting_key Date_parse sort_by c)
         else js_le (sorting_key Date_parse sort_by c) (sorting_key Date_parse sort_by a)"
    by (auto intro: js_le_trans split: if_splits)
next
  from k show "\<forall>y \<in> set xs. sorting_key Date_parse sort_by y \<noteq> NaN" .
qed

section \<open>Properties of the parsers\<close>

lemma decimal_char_of: "(d::nat) < 10 \<Longrightarrow> decimal_char (char_of (48 + d))"
  by (simp add: decimal_char_def)

lemma digitValue_char_of: "(d::nat) < 10 \<Longrightarrow> digitValue (char_of (48 + d)) = d"
  by (simp add: digitValue_def)

lemma decimal_char_digitValue: "decimal_char c \<Longrightarrow> digitValue c < 10"
  by (auto simp: decimal_char_def digitValue_def Let_def)

lemma decimal_char_not_space: "decimal_char c \<Longrightarrow> \<not> isWhiteSpace c"
  by (auto simp: decimal_char_def isWhiteSpace_def)

lemma decimal_char_neq:
  assumes "decimal_char c"
  shows "c \<noteq> CHR ''-''" "c \<noteq> CHR ''+''" "c \<noteq> CHR ''x''" "c \<noteq> CHR ''X''"
  using assms by (auto simp: decimal_char_def)

lemma digits_decimal: "\<forall>c \<in> set (digits n). decimal_char c"
proof (induction n rule: digits.induct)
  case (1 n)
  show ?case
  proof (cases "n < 10")
    case True
    then show ?thesis by (subst digits.simps) (simp add: decimal_char_of)
  next
    case False
    with 1 have "\<forall>c \<in> set (digits (n div 10)). decimal_char c" by simp
    moreover have "decimal_char (char_of (48 + n mod 10))" by (simp add: decimal_char_of)
    ultimately show ?thesis using False by (subst digits.simps) simp
  qed
qed

lemma digits_nonempty: "digits n \<noteq> []"
  by (subst digits.simps) simp

lemma radixValue_snoc: "radixValue R (z @ [c]) = radixValue R z * R + digitValue c"
  by (simp add: radixValue_def)

lemma radixValue_digits: "radixValue 10 (digits n) = n"
proof (induction n rule: digits.induct)
  case (1 n)
  show ?case
  proof (cases "n < 10")
    case True
    then show ?thesis
      by (subst digits.simps) (simp add: radixValue_def digitValue_char_of)
  next
    case False
    with 1 have "radixValue 10 (digits (n div 10)) = n div 10" by simp
    with False show ?thesis
      by (subst digits.simps) (simp add: radixValue_snoc digitValue_char_of)
  qed
qed

lemma takeWhile_digits:
  "takeWhile (\<lambda>c. digitValue c < 10) (digits n) = digits n"
  using digits_decimal [of n] by (simp add: decimal_char_digitValue)

lemma stripPrefix_decimal:
  assumes "\<forall>c \<in> set z. decimal_char c"
  shows "stripPrefix z = (10, z)"
proof (cases z)
  case Nil
  then show ?thesis by simp
next
  case (Cons c z')
  show ?thesis
  proof (cases z')
    case Nil
    with Cons show ?thesis by simp
  next
    case (Cons d z'')
    with assms \<open>z = c # z'\<close> have "decimal_char d" by simp
    then have "d \<noteq> CHR ''x''" "d \<noteq> CHR ''X''" by (simp_all add: decimal_char_neq)
    with Cons \<open>z = c # z'\<close> show ?thesis by simp
  qed
qed

lemma stripSign_decimal:
  assumes "\<forall>c \<in> set z. decimal_char c"
  shows "stripSign z = (1, z)"
proof (cases z)
  case Nil
  then show ?thesis by simp
next
  case (Cons c z')
  with assms have "decimal_char c" by simp
  then have "c \<noteq> CHR ''-''" "c \<noteq> CHR ''+''" by (simp_all add: decimal_char_neq)
  with Cons show ?thesis by simp
qed

lemma dropWhile_space_decimal:
  assumes "\<forall>c \<in> set z. decimal_char c"
  shows "dropWhile isWhiteSpace z = z"
  using assms by (cases z) (simp_all add: decimal_char_not_space)

lemma parseInt_digits: "parseInt (digits n) = Finite (of_nat n)"
proof -
  note d = digits_decimal [of n]
  show ?thesis
    by (simp add: parseInt_def dropWhile_space_decimal [OF d] stripSign_decimal [OF d]
        stripPrefix_decimal [OF d] takeWhile_digits digits_nonempty radixValue_digits)
qed

lemma parseInt_minus_digits: "parseInt (CHR ''-'' # digits n) = Finite (- of_nat n)"
proof -
  note d = digits_decimal [of n]
  have "\<not> isWhiteSpace CHR ''-''" by (simp add: isWhiteSpace_def)
  then show ?thesis
    by (simp add: parseInt_def stripPrefix_decimal [OF d] takeWhile_digits digits_nonempty
        radixValue_digits)
qed

text \<open>\<open>parseInt\<close> reads back what \<open>toString\<close> writes for a safe integer.\<close>

lemma parseInt_toString:
  assumes "isSafeInteger i"
  shows "parseInt (toString i) = Finite (of_int i)"
proof (cases "i < 0")
  case True
  then have "(of_nat (nat (- i)) :: rat) = - of_int i"
    by (metis of_int_minus of_int_of_nat_eq int_nat_eq neg_0_le_iff_le less_imp_le)
  with True show ?thesis by (simp add: toString_def parseInt_minus_digits)
next
  case False
  then have "(of_nat (nat i) :: rat) = of_int i"
    by (metis of_int_of_nat_eq int_nat_eq not_less)
  with False show ?thesis by (simp add: toString_def parseInt_digits)
qed

lemma stripPrefix_non_digit:
  assumes "\<not> isDigit c"
  shows "stripPrefix (c # r) = (10, c # r)"
proof -
  have "isDigit CHR ''0''" by (simp add: isDigit_def digitValue_def)
  with assms have "c \<noteq> CHR ''0''" by auto
  then show ?thesis by (cases r) simp_all
qed

lemma parseInt_NaN:
  assumes "\<not> starts_numeral s"
  shows "parseInt s = NaN"
proof -
  obtain sign s1 where ss: "stripSign (dropWhile isWhiteSpace s) = (sign, s1)"
    by (cases "stripSign (dropWhile isWhiteSpace s)")
  show ?thesis
  proof (cases s1)
    case Nil
    with ss show ?thesis by (simp add: parseInt_def)
  next
    case (Cons c r)
    with assms ss have nd: "\<not> isDigit c" by (simp add: starts_numeral_def)
    then have "\<not> digitValue c < 10" by (simp add: isDigit_def)
    with ss Cons stripPrefix_non_digit [OF nd, of r] show ?thesis
      by (simp add: parseInt_def)
  qed
qed

lemma parseFloat_NaN:
  assumes "\<not> starts_numeral s"
  shows "parseFloat s = NaN"
proof -
  obtain sign s1 where ss: "stripSign (dropWhile isWhiteSpace s) = (sign, s1)"
    by (cases "stripSign (dropWhile isWhiteSpace s)")
  show ?thesis
  proof (cases s1)
    case Nil
    with ss show ?thesis by (simp add: parseFloat_def)
  next
    case (Cons c r)
    with assms ss have nd: "\<not> isDigit c" "c \<noteq> CHR ''.''" "c \<noteq> CHR ''I''"
      by (simp_all add: starts_numeral_def)
    with ss Cons show ?thesis
      by (simp add: parseFloat_def)
  qed
qed

section \<open>Properties of the query reader\<close>

lemma get_or_None: "params_get q k = None \<Longrightarrow> get_or q k d = d"
  by (simp add: get_or_def)

lemma get_or_empty: "params_get q k = Some [] \<Longrightarrow> get_or q k d = d"
  by (simp add: get_or_def)

lemma get_or_Some: "params_get q k = Some v \<Longrightarrow> v \<noteq> [] \<Longrightarrow> get_or q k d = v"
  by (simp add: get_or_def)

lemma parse_fallbacks:
  "parseFloat ''0'' = Finite 0" "parseFloat ''Infinity'' = Infinity"
  "parseInt ''1'' = Finite 1" "parseInt ''10'' = Finite 10"
  by code_simp+

lemma toString_nonempty: "toString i \<noteq> []"
  by (simp add: toString_def digits_nonempty)

text \<open>
  C3, as the code has it. A numeric parameter that is absent or empty takes its fallback:
  0 for \<open>min_price\<close>, infinity for \<open>max_price\<close>, 1 for \<open>page\<close> and 10 for \<open>limit\<close>. A
  parameter that is present, not empty and non-numeric is not replaced by the fallback:
  it is parsed as it is and the result is \<open>NaN\<close>. The request is rejected in neither
  case: the four readers are total functions.
\<close>

theorem numeric_params_fallback:
  "(params_get q ''min_price'' \<in> {None, Some []} \<longrightarrow> GET_minPrice q = Finite 0) \<and>
   (params_get q ''max_price'' \<in> {None, Some []} \<longrightarrow> GET_maxPrice q = Infinity) \<and>
   (params_get q ''page'' \<in> {None, Some []} \<longrightarrow> GET_page q = Finite 1) \<and>
   (params_get q ''limit'' \<in> {None, Some []} \<longrightarrow> GET_limit q = Finite 10) \<and>
   (\<forall>v. params_get q ''min_price'' = Some v \<and> v \<noteq> [] \<and> \<not> starts_numeral v \<longrightarrow>
        GET_minPrice q = NaN) \<and>
   (\<forall>v. params_get q ''max_price'' = Some v \<and> v \<noteq> [] \<and> \<not> starts_numeral v \<longrightarrow>
        GET_maxPrice q = NaN) \<and>
   (\<forall>v. params_get q ''page'' = Some v \<and> v \<noteq> [] \<and> \<not> starts_numeral v \<longrightarrow>
        GET_page q = NaN) \<and>
   (\<forall>v. params_get q ''limit'' = Some v \<and> v \<noteq> [] \<and> \<not> starts_numeral v \<longrightarrow>
        GET_limit q = NaN)"
proof (intro conjI allI impI)
  assume "params_get q ''min_price'' \<in> {None, Some []}"
  then show "GET_minPrice q = Finite 0"
    by (auto simp: GET_minPrice_def get_or_None get_or_empty parse_fallbacks)
next
  assume "params_get q ''max_price'' \<in> {None, Some []}"
  then show "GET_maxPrice q = Infinity"
    by (auto simp: GET_maxPrice_def get_or_None get_or_empty parse_fallbacks)
next
  assume "params_get q ''page'' \<in> {None, Some []}"
  then show "GET_page q = Finite 1"
    by (auto simp: GET_page_def get_or_None get_or_empty parse_fallbacks)
next
  assume "params_get q ''limit'' \<in> {None, Some []}"
  then show "GET_limit q = Finite 10"
    by (auto simp: GET_limit_def get_or_None get_or_empty parse_fallbacks)
next
  fix v assume "params_get q ''min_price'' = Some v \<and> v \<noteq> [] \<and> \<not> starts_numeral v"
  then show "GET_minPrice q = NaN"
    by (simp add: GET_minPrice_def get_or_Some parseFloat_NaN)
next
  fix v assume "params_get q ''max_price'' = Some v \<and> v \<noteq> [] \<and> \<not> starts_numeral v"
  then show "GET_maxPrice q = NaN"
    by (simp add: GET_maxPrice_def get_or_Some parseFloat_NaN)
next
  fix v assume "params_get q ''page'' = Some v \<and> v \<noteq> [] \<and> \<not> starts_numeral v"
  then show "GET_page q = NaN"
    by (simp add: GET_page_def get_or_Some parseInt_NaN)
next
  fix v assume "params_get q ''limit'' = Some v \<and> v \<noteq> [] \<and> \<not> starts_numeral v"
  then show "GET_limit q = NaN"
    by (simp add: GET_limit_def get_or_Some parseInt_NaN)
qed

lemma not_starts_numeral_examples:
  "\<not> starts_numeral ''abc''" "\<not> starts_numeral ''cheap''"
  by code_simp+

theorem numeric_params_fallback_witness:
  "params_get [(''page'', ''abc''), (''limit'', ''''), (''min_price'', ''cheap'')] ''max_price'' = None \<and>
   GET_maxPrice [(''page'', ''abc''), (''limit'', ''''), (''min_price'', ''cheap'')] = Infinity \<and>
   GET_limit [(''page'', ''abc''), (''limit'', ''''), (''min_price'', ''cheap'')] = Finite 10 \<and>
   GET_page [(''page'', ''abc''), (''limit'', ''''), (''min_price'', ''cheap'')] = NaN \<and>
   GET_minPrice [(''page'', ''abc''), (''limit'', ''''), (''min_price'', ''cheap'')] = NaN"
proof -
  let ?q = "[(''page'', ''abc''), (''limit'', ''''), (''min_price'', ''cheap'')]"
  have g: "params_get ?q ''max_price'' = None" "params_get ?q ''limit'' = Some []"
    "params_get ?q ''page'' = Some ''abc''" "params_get ?q ''min_price'' = Some ''cheap''"
    by (simp_all add: params_get_def)
  note th = numeric_params_fallback [of ?q]
  from th g have "GET_maxPrice ?q = Infinity" by simp
  moreover from th g have "GET_limit ?q = Finite 10" by simp
  moreover from th g not_starts_numeral_examples have "GET_page ?q = NaN" by simp
  moreover from th g not_starts_numeral_examples have "GET_minPrice ?q = NaN" by simp
  ultimately show ?thesis using g by simp
qed

text \<open>The claim as stated fails for each of the four parameters: a non-numeric value gives
  \<open>NaN\<close>, not the fallback.\<close>

theorem non_numeric_page_counterexample:
  "GET_page [(''page'', ''abc'')] = NaN \<and> GET_page [(''page'', ''abc'')] \<noteq> Finite 1 \<and>
   GET_limit [(''limit'', ''ten'')] = NaN \<and>
   GET_minPrice [(''min_price'', ''cheap'')] = NaN \<and>
   GET_maxPrice [(''max_price'', ''high'')] = NaN"
proof -
  have "GET_page [(''page'', ''abc'')] = NaN" "GET_limit [(''limit'', ''ten'')] = NaN"
    "GET_minPrice [(''min_price'', ''cheap'')] = NaN"
    "GET_maxPrice [(''max_price'', ''high'')] = NaN"
    by code_simp+
  then show ?thesis by simp
qed

section \<open>Properties of the query builder\<close>

lemma params_get_Nil: "params_get [] k = None"
  by (simp add: params_get_def)

lemma params_get_append:
  "params_get (params_append k v params) k' =
     (case params_get params k' of Some x \<Rightarrow> Some x | None \<Rightarrow> if k = k' then Some v else None)"
  by (auto simp: params_get_def params_append_def map_add_def split: option.splits)

lemma params_get_append_if:
  "params_get (append_if c k v params) k' =
     (case params_get params k' of
        Some x \<Rightarrow> Some x
      | None \<Rightarrow> if c \<and> k = k' then Some v else None)"
  by (simp add: append_if_def params_get_append split: option.splits)

lemmas params_get_simps = params_get_Nil params_get_append params_get_append_if

lemma buildQuery_search:
  "params_get (buildQuery locale fs) ''search'' =
     (if trim (search fs) = [] then None else Some (trim (search fs)))"
  by (simp add: buildQuery_def params_get_simps)

lemma buildQuery_sortBy: "params_get (buildQuery locale fs) ''sortBy'' = Some (sortBy fs)"
  by (simp add: buildQuery_def params_get_simps)

lemma buildQuery_sortDirection:
  "params_get (buildQuery locale fs) ''sortDirection'' = Some (sortDirection fs)"
  by (simp add: buildQuery_def params_get_simps)

lemma buildQuery_status:
  "params_get (buildQuery locale fs) ''status'' =
     (if status fs = [] then None else Some (join (CHR '','') (status fs)))"
  by (simp add: buildQuery_def params_get_simps)

lemma buildQuery_type:
  "params_get (buildQuery locale fs) ''type'' =
     (if type fs = [] then None else Some (join (CHR '','') (type fs)))"
  by (simp add: buildQuery_def params_get_simps)

lemma buildQuery_minPrice:
  "params_get (buildQuery locale fs) ''minPrice'' =
     (if 0 < minPrice fs then Some (toString (minPrice fs)) else None)"
  by (simp add: buildQuery_def params_get_simps)

lemma buildQuery_maxPrice:
  "params_get (buildQuery locale fs) ''maxPrice'' =
     (if maxPrice fs < 1000 then Some (toString (maxPrice fs)) else None)"
  by (simp add: buildQuery_def params_get_simps)

lemma buildQuery_page:
  "params_get (buildQuery locale fs) ''page'' = Some (toString (page fs))"
  by (simp add: buildQuery_def params_get_simps)

lemma buildQuery_limit: "params_get (buildQuery locale fs) ''limit'' = Some ''10''"
  by (simp add: buildQuery_def params_get_simps)

lemma buildQuery_locale: "params_get (buildQuery locale fs) ''locale'' = Some locale"
  by (simp add: buildQuery_def params_get_simps)

lemma buildQuery_snake_keys:
  "params_get (buildQuery locale fs) ''sort_by'' = None"
  "params_get (buildQuery locale fs) ''order'' = None"
  "params_get (buildQuery locale fs) ''min_price'' = None"
  "params_get (buildQuery locale fs) ''max_price'' = None"
  by (simp_all add: buildQuery_def params_get_simps)

text \<open>A key is absent from the query exactly when \<open>get\<close> returns \<open>null\<close> for it.\<close>

lemma params_get_None_iff: "params_get params k = None \<longleftrightarrow> k \<notin> fst ` set params"
  by (simp add: params_get_def map_of_eq_None_iff)

text \<open>
  C8, as the code has it. The encoder omits \<open>search\<close> exactly when the trimmed search
  string is empty (and writes the trimmed string otherwise), \<open>status\<close> and \<open>type\<close>
  exactly when the array is empty, \<open>minPrice\<close> exactly when the minimum is not above 0 and
  \<open>maxPrice\<close> exactly when the maximum is not below 1000. The sort field, the sort
  direction, the page and the limit 10 are always written.
\<close>

theorem encoder_omits_defaults:
  "params_get (buildQuery locale fs) ''search'' =
     (if trim (search fs) = [] then None else Some (trim (search fs))) \<and>
   params_get (buildQuery locale fs) ''status'' =
     (if status fs = [] then None else Some (join (CHR '','') (status fs))) \<and>
   params_get (buildQuery locale fs) ''type'' =
     (if type fs = [] then None else Some (join (CHR '','') (type fs))) \<and>
   params_get (buildQuery locale fs) ''minPrice'' =
     (if 0 < minPrice fs then Some (toString (minPrice fs)) else None) \<and>
   params_get (buildQuery locale fs) ''maxPrice'' =
     (if maxPrice fs < 1000 then Some (toString (maxPrice fs)) else None) \<and>
   params_get (buildQuery locale fs) ''sortBy'' = Some (sortBy fs) \<and>
   params_get (buildQuery locale fs) ''sortDirection'' = Some (sortDirection fs) \<and>
   params_get (buildQuery locale fs) ''page'' = Some (toString (page fs)) \<and>
   params_get (buildQuery locale fs) ''limit'' = Some ''10''"
  by (simp only: buildQuery_search buildQuery_status buildQuery_type buildQuery_minPrice
      buildQuery_maxPrice buildQuery_sortBy buildQuery_sortDirection buildQuery_page
      buildQuery_limit simp_thms)

text \<open>The claim as stated fails for a search string that is one space: it is not the
  default, the empty string, and the key is omitted all the same.\<close>

theorem blank_search_counterexample:
  "search (initialFilters\<lparr>search := '' ''\<rparr>) \<noteq> [] \<and>
   params_get (buildQuery ''en'' (initialFilters\<lparr>search := '' ''\<rparr>)) ''search'' = None"
proof -
  have "trim '' '' = []" by (simp add: trim_def isWhiteSpace_def)
  then show ?thesis by (simp add: buildQuery_search initialFilters_def)
qed

section \<open>Encoding a filter state and reading it back\<close>

lemma split_no_sep: "sep \<notin> set x \<Longrightarrow> split sep x = [x]"
  by (induction x) auto

lemma split_append_sep:
  "sep \<notin> set x \<Longrightarrow> split sep (x @ sep # s) = x # split sep s"
  by (induction x) auto

lemma split_join:
  assumes "xs \<noteq> []" and "\<forall>x \<in> set xs. sep \<notin> set x"
  shows "split sep (join sep xs) = xs"
  using assms
proof (induction sep xs rule: join.induct)
  case (1 sep)
  then show ?case by simp
next
  case (2 sep x)
  then show ?case by (simp add: split_no_sep)
next
  case (3 sep x y ys)
  then show ?case by (simp add: split_append_sep)
qed

text \<open>
  C1, as the code has it. Of a filter state encoded by \<open>buildQuery\<close> and read back by the
  list route, the status set and the type set survive when no value contains a comma, the
  page survives when it is a safe integer, and the page size is the 10 that the encoder
  writes. The search string comes back trimmed and in lower case.
\<close>

theorem round_trip_surviving_fields:
  assumes "\<forall>x \<in> set (status fs). CHR '','' \<notin> set x"
      and "\<forall>x \<in> set (type fs). CHR '','' \<notin> set x"
      and "isSafeInteger (page fs)"
  shows "GET_search (buildQuery locale fs) = toLowerCase (trim (search fs)) \<and>
         GET_status (buildQuery locale fs) = status fs \<and>
         GET_type (buildQuery locale fs) = type fs \<and>
         GET_page (buildQuery locale fs) = Finite (of_int (page fs)) \<and>
         GET_limit (buildQuery locale fs) = Finite 10"
proof (intro conjI)
  show "GET_search (buildQuery locale fs) = toLowerCase (trim (search fs))"
    by (simp add: GET_search_def buildQuery_search toLowerCase_def)
  show "GET_status (buildQuery locale fs) = status fs"
    using assms(1) by (simp add: GET_status_def buildQuery_status split_join)
  show "GET_type (buildQuery locale fs) = type fs"
    using assms(2) by (simp add: GET_type_def buildQuery_type split_join)
  show "GET_page (buildQuery locale fs) = Finite (of_int (page fs))"
    by (simp add: GET_page_def get_or_Some [OF buildQuery_page toString_nonempty]
        parseInt_toString [OF assms(3)])
  show "GET_limit (buildQuery locale fs) = Finite 10"
    by (simp add: GET_limit_def get_or_Some [OF buildQuery_limit] parse_fallbacks)
qed

theorem round_trip_surviving_fields_witness:
  "CHR '','' \<notin> set ''active'' \<and> CHR '','' \<notin> set ''draft'' \<and> CHR '','' \<notin> set ''villa'' \<and>
   isSafeInteger (page sample_filters) \<and>
   GET_search (buildQuery ''en'' sample_filters) = ''villa'' \<and>
   GET_status (buildQuery ''en'' sample_filters) = [''active'', ''draft''] \<and>
   GET_type (buildQuery ''en'' sample_filters) = [''villa''] \<and>
   GET_page (buildQuery ''en'' sample_filters) = Finite 3 \<and>
   GET_limit (buildQuery ''en'' sample_filters) = Finite 10"
proof -
  have c: "\<forall>x \<in> set (status sample_filters). CHR '','' \<notin> set x"
    "\<forall>x \<in> set (type sample_filters). CHR '','' \<notin> set x"
    by (simp_all add: sample_filters_def)
  have p: "isSafeInteger (page sample_filters)"
    by (simp add: sample_filters_def isSafeInteger_def)
  have l: "toLowerCase (trim (search sample_filters)) = ''villa''"
    unfolding sample_filters_def by code_simp
  from round_trip_surviving_fields [OF c p, of "''en''"] l p show ?thesis
    by (simp add: sample_filters_def)
qed

text \<open>The encoder writes the sort field, the sort direction and the prices under the keys
  \<open>sortBy\<close>, \<open>sortDirection\<close>, \<open>minPrice\<close> and \<open>maxPrice\<close>; the route reads \<open>sort_by\<close>,
  \<open>order\<close>, \<open>min_price\<close> and \<open>max_price\<close>, finds none of them and takes its
  defaults.\<close>

lemma round_trip_lost_fields:
  "GET_sort_by (buildQuery locale fs) = ''last_updated''"
  "GET_order (buildQuery locale fs) = ''desc''"
  "GET_minPrice (buildQuery locale fs) = Finite 0"
  "GET_maxPrice (buildQuery locale fs) = Infinity"
  by (simp_all add: GET_sort_by_def GET_order_def GET_minPrice_def GET_maxPrice_def
      get_or_None buildQuery_snake_keys parse_fallbacks)

text \<open>The claim as stated fails for the sort field, the sort direction, the minimum and
  the maximum price, none of which is at its default in \<open>sample_filters\<close>.\<close>

theorem round_trip_counterexample:
  "sortBy sample_filters = ''price'' \<and>
   GET_sort_by (buildQuery ''en'' sample_filters) = ''last_updated'' \<and>
   sortDirection sample_filters = ''asc'' \<and>
   GET_order (buildQuery ''en'' sample_filters) = ''desc'' \<and>
   minPrice sample_filters = 60 \<and>
   GET_minPrice (buildQuery ''en'' sample_filters) = Finite 0 \<and>
   maxPrice sample_filters = 500 \<and>
   GET_maxPrice (buildQuery ''en'' sample_filters) = Infinity"
  by (simp add: round_trip_lost_fields) (simp add: sample_filters_def)

end
